theory Spec2Isabelle
  imports Main "HOL-Library.Word"
begin

unbundle bit_operations_syntax

section \<open>Machine integers\<close>

type_synonym u8 = "8 word"
type_synonym u16 = "16 word"
type_synonym u32 = "32 word"

section \<open>Panel protocol engine (dgus\_tft.cpp)\<close>

subsection \<open>Page ids (dgus\_tft.h, PAGE INDEX)\<close>

definition PAGE_OFFSET :: u32 where "PAGE_OFFSET = 0"
definition PAGE_MAIN :: u32 where "PAGE_MAIN = 1 + PAGE_OFFSET"
definition PAGE_STATUS1 :: u32 where "PAGE_STATUS1 = 3 + PAGE_OFFSET"
definition PAGE_STATUS2 :: u32 where "PAGE_STATUS2 = 4 + PAGE_OFFSET"
definition PAGE_PreLEVEL :: u32 where "PAGE_PreLEVEL = 16 + PAGE_OFFSET"
definition PAGE_LEVELING :: u32 where "PAGE_LEVELING = 34 + PAGE_OFFSET"
definition PAGE_OUTAGE_RECOVERY :: u32 where "PAGE_OUTAGE_RECOVERY = 171 + PAGE_OFFSET"
definition PAGE_ENG_OUTAGE_RECOVERY :: u32 where "PAGE_ENG_OUTAGE_RECOVERY = 173 + PAGE_OFFSET"
definition PAGE_CHS_PROBE_PREHEATING :: u32 where "PAGE_CHS_PROBE_PREHEATING = 176 + PAGE_OFFSET"
definition PAGE_ENG_PROBE_PREHEATING :: u32 where "PAGE_ENG_PROBE_PREHEATING = 175 + PAGE_OFFSET"
definition PAGE_CHS_HOMING :: u32 where "PAGE_CHS_HOMING = 177 + PAGE_OFFSET"
definition PAGE_CHS_ABNORMAL_BED_HEATER :: u32 where "PAGE_CHS_ABNORMAL_BED_HEATER = 178 + PAGE_OFFSET"
definition PAGE_CHS_ABNORMAL_BED_NTC :: u32 where "PAGE_CHS_ABNORMAL_BED_NTC = 179 + PAGE_OFFSET"
definition PAGE_CHS_ABNORMAL_HOTEND_HEATER :: u32 where "PAGE_CHS_ABNORMAL_HOTEND_HEATER = 180 + PAGE_OFFSET"
definition PAGE_CHS_ABNORMAL_HOTEND_NTC :: u32 where "PAGE_CHS_ABNORMAL_HOTEND_NTC = 181 + PAGE_OFFSET"
definition PAGE_CHS_ABNORMAL_X_ENDSTOP :: u32 where "PAGE_CHS_ABNORMAL_X_ENDSTOP = 182 + PAGE_OFFSET"
definition PAGE_CHS_ABNORMAL_Y_ENDSTOP :: u32 where "PAGE_CHS_ABNORMAL_Y_ENDSTOP = 183 + PAGE_OFFSET"
definition PAGE_CHS_ABNORMAL_Z_ENDSTOP :: u32 where "PAGE_CHS_ABNORMAL_Z_ENDSTOP = 184 + PAGE_OFFSET"
definition PAGE_CHS_ABNORMAL_LEVELING_SENSOR :: u32 where "PAGE_CHS_ABNORMAL_LEVELING_SENSOR = 187 + PAGE_OFFSET"
definition PAGE_ENG_HOMING :: u32 where "PAGE_ENG_HOMING = 189 + PAGE_OFFSET"
definition PAGE_ENG_ABNORMAL_BED_NTC :: u32 where "PAGE_ENG_ABNORMAL_BED_NTC = 191 + PAGE_OFFSET"
definition PAGE_ENG_ABNORMAL_HOTEND_NTC :: u32 where "PAGE_ENG_ABNORMAL_HOTEND_NTC = 193 + PAGE_OFFSET"
definition PAGE_CHS_PROBE_PRECHECK :: u32 where "PAGE_CHS_PROBE_PRECHECK = 201 + PAGE_OFFSET"
definition PAGE_CHS_PROBE_PRECHECK_FAILED :: u32 where "PAGE_CHS_PROBE_PRECHECK_FAILED = 203 + PAGE_OFFSET"

subsection \<open>Panel addresses (dgus\_tft.h)\<close>

definition REG_LCD_READY :: u32 where "REG_LCD_READY = 0x0014"
definition TXT_OUTAGE_RECOVERY_PROGRESS :: u32 where "TXT_OUTAGE_RECOVERY_PROGRESS = 0x2210"
definition TXT_OUTAGE_RECOVERY_FILE :: u32 where "TXT_OUTAGE_RECOVERY_FILE = 0x2180"
definition ADDRESS_MOVE_DISTANCE :: u32 where "ADDRESS_MOVE_DISTANCE = 0x4300"
definition ADDRESS_SYSTEM_LED_STATUS :: u32 where "ADDRESS_SYSTEM_LED_STATUS = 0x4500"
definition ADDRESS_PRINT_SETTING_LED_STATUS :: u32 where
  "ADDRESS_PRINT_SETTING_LED_STATUS = 0x4550"

subsection \<open>Panel state\<close>

text \<open>
  \<open>ExtUI::language_t\<close> and \<open>ExtUI::audio_t\<close> are declared in ui\_api.h, which is
  not among the sources; the panel code only ever tests for and assigns the values
  \<open>CHS\<close> and \<open>ENG\<close>, \<open>ON\<close> and \<open>OFF\<close>.
\<close>

datatype language_t = CHS | ENG

datatype audio_t = ON | OFF

datatype printer_state_t =
    AC_printer_idle
  | AC_printer_probing
  | AC_printer_printing
  | AC_printer_pausing
  | AC_printer_paused
  | AC_printer_stopping
  | AC_printer_stopping_from_media_remove
  | AC_printer_resuming_from_power_outage

datatype paused_state_t =
    AC_paused_heater_timed_out
  | AC_paused_filament_lack
  | AC_paused_purging_filament
  | AC_paused_idle

datatype heater_state_t = AC_heater_off | AC_heater_temp_set | AC_heater_temp_reached

datatype tune_t = BeepBeepBeeep | SOS | Anycubic_PowerOn

text \<open>
  The static members of \<open>DgusTFT\<close> that the modelled functions touch, the function-static
  \<open>probe_cnt\<close> of \<open>StatusChange\<close>, and the effects on the collaborators as logs:
  \<open>tft_out\<close> holds the bytes given to \<open>TFTSer.write\<close>, \<open>injected\<close> the strings given to
  \<open>injectCommands_P\<close>, \<open>tunes\<close> the calls of \<open>PlayTune\<close>, \<open>runout_resets\<close> counts
  \<open>setFilamentRunoutState(false)\<close>.
\<close>

record tft =
  language :: language_t
  audio :: audio_t
  page_index_now :: u32
  page_index_last :: u32
  page_index_last_2 :: u32
  printer_state :: printer_state_t
  pause_state :: paused_state_t
  hotend_state :: heater_state_t
  hotbed_state :: heater_state_t
  probe_cnt :: u8
  tft_out :: "u8 list"
  injected :: "string list"
  tunes :: "tune_t list"
  runout_resets :: nat

text \<open>
  The panel state as the constructor and \<open>Startup\<close> leave it, for a given language and
  audio setting (both come from the stored settings), with empty logs.
\<close>

definition tft_init :: "language_t \<Rightarrow> audio_t \<Rightarrow> tft" where
  "tft_init lang aud =
     \<lparr>language = lang, audio = aud,
      page_index_now = 1, page_index_last = 1, page_index_last_2 = 1,
      printer_state = AC_printer_idle, pause_state = AC_paused_idle,
      hotend_state = AC_heater_off, hotbed_state = AC_heater_off,
      probe_cnt = 0, tft_out = [], injected = [], tunes = [], runout_resets = 0\<rparr>"

subsection \<open>Page navigation\<close>

text \<open>
  The if-chain that computes \<open>data_temp\<close>; \<open>ChangePageOfTFT\<close> and
  \<open>FakeChangePageOfTFT\<close> contain the same chain. \<open>data_temp\<close> starts as 0 and the
  arithmetic is that of \<open>uint32_t\<close>.
\<close>

definition page_data_temp :: "language_t \<Rightarrow> u32 \<Rightarrow> u32" where
  "page_data_temp lang page_index =
     (if lang = CHS then page_index
      else if lang = ENG then
        (if PAGE_OUTAGE_RECOVERY = page_index then PAGE_ENG_OUTAGE_RECOVERY
         else if PAGE_CHS_PROBE_PREHEATING = page_index then PAGE_ENG_PROBE_PREHEATING
         else if PAGE_CHS_HOMING \<le> page_index \<and> page_index \<le> PAGE_ENG_HOMING
           then page_index + 12
         else if PAGE_CHS_PROBE_PRECHECK \<le> page_index
                 \<and> page_index \<le> PAGE_CHS_PROBE_PRECHECK_FAILED
           then page_index + 3
         else page_index + 120)
      else 0)"

text \<open>
  The ten bytes of the page-change frame. \<open>(uint8_t *)(&data_temp)+1\<close> is the second
  byte of the 32-bit value in memory, bits 8 to 15 on the little-endian target, and the
  byte before it holds bits 0 to 7.
\<close>

definition page_frame :: "u32 \<Rightarrow> u8 list" where
  "page_frame data_temp =
     [0x5A, 0xA5, 0x07, 0x82, 0x00, 0x84, 0x5A, 0x01,
      ucast (drop_bit 8 data_temp), ucast data_temp]"

definition ChangePageOfTFT :: "u32 \<Rightarrow> tft \<Rightarrow> tft" where
  "ChangePageOfTFT page_index s =
     (let data_temp = page_data_temp (language s) page_index
      in s\<lparr>tft_out := tft_out s @ page_frame data_temp,
            page_index_last_2 := page_index_last s,
            page_index_last := page_index_now s,
            page_index_now := data_temp\<rparr>)"


text \<open>The 16-bit page id a page-change frame carries in its last two bytes.\<close>

definition frame_page_id :: "u8 list \<Rightarrow> nat" where
  "frame_page_id f = unat (f ! 8) * 256 + unat (f ! 9)"


subsection \<open>C strings\<close>

text \<open>
  A C string is modelled by the characters before its terminator.
  \<open>strncmp(s, lit, strlen(lit)) == 0\<close> holds when \<open>s\<close> begins with \<open>lit\<close>.
\<close>

fun starts_with :: "string \<Rightarrow> string \<Rightarrow> bool" where
  "starts_with [] s = True"
| "starts_with (c # cs) [] = False"
| "starts_with (c # cs) (d # ds) = (c = d \<and> starts_with cs ds)"

subsection \<open>Fault notification\<close>

text \<open>
  \<open>DgusTFT::PrinterKilled\<close>. The \<open>SERIAL_ECHOLNPAIR\<close> lines write to the debug serial
  port only and are left out.
\<close>

definition PrinterKilled :: "string \<Rightarrow> string \<Rightarrow> tft \<Rightarrow> tft" where
  "PrinterKilled error component s =
     (if starts_with ''Heating Failed'' error then
        (if starts_with ''Bed'' component then ChangePageOfTFT PAGE_CHS_ABNORMAL_BED_HEATER s
         else if starts_with ''E1'' component
           then ChangePageOfTFT PAGE_CHS_ABNORMAL_HOTEND_HEATER s
         else s)
      else if starts_with ''Err: MINTEMP'' error then
        (if starts_with ''Bed'' component then ChangePageOfTFT PAGE_CHS_ABNORMAL_BED_NTC s
         else if starts_with ''E1'' component
           then ChangePageOfTFT PAGE_CHS_ABNORMAL_HOTEND_NTC s
         else s)
      else if starts_with ''Err: MAXTEMP'' error then
        (if starts_with ''Bed'' component then ChangePageOfTFT PAGE_CHS_ABNORMAL_BED_NTC s
         else if starts_with ''E1'' component
           then ChangePageOfTFT PAGE_CHS_ABNORMAL_HOTEND_NTC s
         else s)
      else if starts_with ''THERMAL RUNAWAY'' error then
        (if starts_with ''Bed'' component then ChangePageOfTFT PAGE_CHS_ABNORMAL_BED_HEATER s
         else if starts_with ''E1'' component
           then ChangePageOfTFT PAGE_CHS_ABNORMAL_HOTEND_HEATER s
         else s)
      else if starts_with ''Homing Failed'' error then
        (if starts_with ''X'' component then ChangePageOfTFT PAGE_CHS_ABNORMAL_X_ENDSTOP s
         else if starts_with ''Y'' component
           then ChangePageOfTFT PAGE_CHS_ABNORMAL_Y_ENDSTOP s
         else if starts_with ''Z'' component
           then ChangePageOfTFT PAGE_CHS_ABNORMAL_Z_ENDSTOP s
         else s)
      else s)"

text \<open>
  The error kinds and the components that \<open>PrinterKilled\<close> compares against, and what it
  means for the function to recognise a string: one of the literals is its beginning.
\<close>

definition error_kinds :: "string list" where
  "error_kinds =
     [''Heating Failed'', ''Err: MINTEMP'', ''Err: MAXTEMP'', ''THERMAL RUNAWAY'',
      ''Homing Failed'']"

definition components :: "string list" where
  "components = [''Bed'', ''E1'', ''X'', ''Y'', ''Z'']"

definition recognised :: "string list \<Rightarrow> string \<Rightarrow> bool" where
  "recognised lits s = list_ex (\<lambda>lit. starts_with lit s) lits"

subsection \<open>Status classifier\<close>

text \<open>
  The message templates (dgus\_tft\_defs.h) and the machine configuration
  (Configuration.h) are not among the sources; \<open>StatusChange\<close> takes them as parameters.
\<close>

record panel_config =
  MARLIN_msg_probing_point :: string
  MARLIN_msg_ready :: string
  MARLIN_msg_probing_failed :: string
  MARLIN_msg_probe_preheat_start :: string
  MARLIN_msg_probe_preheat_stop :: string
  MARLIN_msg_reheating :: string
  MARLIN_msg_media_removed :: string
  MARLIN_msg_print_paused :: string
  MARLIN_msg_print_aborted :: string
  MARLIN_msg_extruder_heating :: string
  MARLIN_msg_bed_heating :: string
  CUSTOM_MACHINE_NAME :: string
  GRID_MAX_POINTS_X :: int
  GRID_MAX_POINTS_Y :: int
  CASE_LIGHT_ENABLE :: bool

text \<open>
  An example of these parameters: the message texts of the upstream panel code, the
  machine name of this printer and the 5 by 5 probing grid that the README describes.
\<close>

definition example_panel_config :: panel_config where
  "example_panel_config =
     \<lparr>MARLIN_msg_probing_point = ''Probing Point '',
      MARLIN_msg_ready = '' Ready.'',
      MARLIN_msg_probing_failed = ''Probing Failed'',
      MARLIN_msg_probe_preheat_start = ''Probe preheat start'',
      MARLIN_msg_probe_preheat_stop = ''Probe preheat stop'',
      MARLIN_msg_reheating = ''Reheating...'',
      MARLIN_msg_media_removed = ''Media Removed'',
      MARLIN_msg_print_paused = ''Print Paused'',
      MARLIN_msg_print_aborted = ''Print Aborted'',
      MARLIN_msg_extruder_heating = ''E Heating...'',
      MARLIN_msg_bed_heating = ''Bed Heating...'',
      CUSTOM_MACHINE_NAME = ''Anycubic Kobra'',
      GRID_MAX_POINTS_X = 5,
      GRID_MAX_POINTS_Y = 5,
      CASE_LIGHT_ENABLE = True\<rparr>"








text \<open>\<open>PowerLossRecovery\<close>, the resume-after-outage notification.\<close>

definition PowerLossRecovery :: "tft \<Rightarrow> tft" where
  "PowerLossRecovery s = s\<lparr>printer_state := AC_printer_resuming_from_power_outage\<rparr>"

subsection \<open>Outbound frames\<close>

text \<open>
  \<open>SendValueToTFT\<close>: the address and the value go out as their bits 8 to 15 followed by
  their bits 0 to 7.
\<close>

definition SendValueToTFT :: "u32 \<Rightarrow> u32 \<Rightarrow> tft \<Rightarrow> tft" where
  "SendValueToTFT val address s =
     s\<lparr>tft_out := tft_out s @
         [0x5A, 0xA5, 0x05, 0x82, ucast (drop_bit 8 address), ucast address,
          ucast (drop_bit 8 val), ucast val]\<rparr>"

text \<open>
  \<open>SendTxtToTFT\<close>: \<open>data_len\<close> is a \<open>uint8_t\<close>, so it holds the length of the text
  modulo 256; header, text and terminator go into a local buffer of 128 bytes, and a text
  that does not fit writes behind that buffer: the result is \<open>None\<close>.
\<close>

definition SendTxtToTFT :: "string \<Rightarrow> u32 \<Rightarrow> tft \<Rightarrow> tft option" where
  "SendTxtToTFT pdata address s =
     (let data_len = length pdata mod 256
      in if 128 < 6 + data_len + 2 then None
         else Some (s\<lparr>tft_out := tft_out s @
                [0x5A, 0xA5, of_nat (data_len + 5), 0x82,
                 ucast (drop_bit 8 address), ucast address]
                @ map of_char (take data_len pdata) @ [0xFF, 0xFF]\<rparr>))"

definition LcdAudioSet :: "audio_t \<Rightarrow> tft \<Rightarrow> tft" where
  "LcdAudioSet a s =
     s\<lparr>tft_out := tft_out s @
         [0x5A, 0xA5, 0x07, 0x82, 0x00, 0x80, 0x5A, 0x00, 0x00,
          (if a = ON then 0x1A else if a = OFF then 0x12 else 0x00)]\<rparr>"

subsection \<open>Frame decoder\<close>










section \<open>Recovery engine (powerloss.cpp)\<close>

subsection \<open>Formatting\<close>

text \<open>The decimal digits that \<open>sprintf\<close> prints for \<open>%i\<close>, \<open>%d\<close>, \<open>%u\<close> and \<open>%ld\<close>.\<close>

definition digit_char :: "nat \<Rightarrow> char" where
  "digit_char n = ''0123456789'' ! (n mod 10)"

fun show_nat :: "nat \<Rightarrow> string" where
  "show_nat n = (if n < 10 then [digit_char n] else show_nat (n div 10) @ [digit_char n])"

declare show_nat.simps [simp del]

definition show_int :: "int \<Rightarrow> string" where
  "show_int i = (if i < 0 then CHR ''-'' # show_nat (nat (- i)) else show_nat (nat i))"

subsection \<open>Floating-point values\<close>

text \<open>
  The positions, lengths and heights are \<open>float\<close>s. The model leaves their type open
  (\<open>'f\<close>) and takes the operations the code applies to them as parameters:
  \<open>dtostrf v w p\<close> is the text of \<open>dtostrf(v, w, p, buf)\<close>; \<open>nonzero v\<close> is the truth value
  of \<open>v\<close> in a condition; \<open>fzero\<close> is the value of zeroed memory;
  \<open>z_changed cur saved\<close> is the comparison \<open>cur > saved + POWER_LOSS_MIN_Z_CHANGE\<close>;
  \<open>plus_2mm z\<close> is \<open>z + 2.0f\<close>; \<open>plus_zraise z\<close> is \<open>z + POWER_LOSS_ZRAISE\<close>;
  \<open>limited_zraise z\<close> is
  \<open>_MAX(0, _MIN(z + POWER_LOSS_ZRAISE, Z_MAX_POS - 1) - z)\<close>; \<open>mmm_u16 v\<close> is
  \<open>uint16_t(MMS_TO_MMM(v))\<close>.
\<close>

record 'f fops =
  dtostrf :: "'f \<Rightarrow> nat \<Rightarrow> nat \<Rightarrow> string"
  nonzero :: "'f \<Rightarrow> bool"
  fzero :: 'f
  z_changed :: "'f \<Rightarrow> 'f \<Rightarrow> bool"
  plus_2mm :: "'f \<Rightarrow> 'f"
  plus_zraise :: "'f \<Rightarrow> 'f"
  limited_zraise :: "'f \<Rightarrow> 'f"
  mmm_u16 :: "'f \<Rightarrow> u16"

subsection \<open>Configuration\<close>

text \<open>
  The configuration macros that powerloss.cpp tests; Configuration.h and
  Configuration\_adv.h are not among the sources, so they are parameters.
  \<open>Z_HOME_DIR_pos\<close> is \<open>Z_HOME_DIR > 0\<close>, \<open>POWER_LOSS_ZRAISE_set\<close> is
  \<open>POWER_LOSS_ZRAISE\<close> being non-zero, \<open>M23_STR fn\<close> is the text that the format string
  \<open>M23_STR\<close> (declared in gcode.cpp) gives for the file name.
\<close>

record plr_config =
  SAVE_INFO_INTERVAL_MS :: u32
  SAVE_EACH_CMD_MODE :: bool
  BACKUP_POWER_SUPPLY :: bool
  POWER_LOSS_RETRACT_LEN :: int
  POWER_LOSS_PURGE_LEN :: int
  POWER_LOSS_ZRAISE_set :: bool
  POWER_LOSS_RECOVER_ZHOME :: bool
  Z_HOME_DIR_pos :: bool
  IS_CARTESIAN :: bool
  HAS_LEVELING :: bool
  ENABLE_LEVELING_FADE_HEIGHT :: bool
  HAS_HEATED_BED :: bool
  HAS_HOTEND :: bool
  HAS_MULTI_HOTEND :: bool
  HOTENDS :: nat
  HAS_MULTI_EXTRUDER :: bool
  EXTRUDERS :: nat
  NO_VOLUMETRICS :: bool
  HAS_FAN :: bool
  FAN_COUNT :: nat
  FWRETRACT :: bool
  NOZZLE_CLEAN_FEATURE :: bool
  BABYSTEPPING :: bool
  GCODE_REPEAT_MARKERS :: bool
  HAS_HOME_OFFSET :: bool
  HAS_POSITION_SHIFT :: bool
  GRADIENT_MIX :: bool
  PREVENT_COLD_EXTRUSION :: bool
  M23_STR :: "string \<Rightarrow> string"

text \<open>
  Without a backup power supply the file undefines \<open>POWER_LOSS_RETRACT_LEN\<close> and
  defines it as 0.
\<close>

definition retract_len :: "plr_config \<Rightarrow> int" where
  "retract_len C = (if BACKUP_POWER_SUPPLY C then POWER_LOSS_RETRACT_LEN C else 0)"

subsection \<open>The snapshot\<close>

record 'f xyze_pos_t =
  pos_x :: 'f
  pos_y :: 'f
  pos_z :: 'f
  pos_e :: 'f

text \<open>
  \<open>job_recovery_info_t\<close> is declared in powerloss.h, which is not among the sources; these
  are the fields that powerloss.cpp and the panel code use. Arrays are functions of the
  index.
\<close>

record 'f job_recovery_info_t =
  valid_head :: u8
  current_position :: "'f xyze_pos_t"
  feedrate :: u16
  zraise :: 'f
  stored_repeat :: "u8 list"
  home_offset :: "nat \<Rightarrow> 'f"
  position_shift :: "nat \<Rightarrow> 'f"
  active_extruder :: u8
  volumetric_enabled :: bool
  filament_size :: "nat \<Rightarrow> 'f"
  target_temperature :: "nat \<Rightarrow> 16 word"
  target_temperature_bed :: "16 word"
  fan_speed :: "nat \<Rightarrow> u8"
  flag_leveling :: bool
  fade :: 'f
  gradient :: "u8 list"
  retract :: "nat \<Rightarrow> 'f"
  retract_hop :: 'f
  print_job_elapsed :: u32
  print_progress :: u8
  axis_relative :: u8
  flag_dryrun :: bool
  flag_allow_cold_extrusion :: bool
  sd_filename :: string
  sdpos :: u32
  valid_foot :: u8

text \<open>The record after \<open>memset(&info, 0, sizeof(info))\<close>.\<close>

definition zero_info :: "'f fops \<Rightarrow> 'f job_recovery_info_t" where
  "zero_info F =
     \<lparr>valid_head = 0,
      current_position = \<lparr>pos_x = fzero F, pos_y = fzero F, pos_z = fzero F, pos_e = fzero F\<rparr>,
      feedrate = 0, zraise = fzero F, stored_repeat = [],
      home_offset = (\<lambda>_. fzero F), position_shift = (\<lambda>_. fzero F),
      active_extruder = 0, volumetric_enabled = False, filament_size = (\<lambda>_. fzero F),
      target_temperature = (\<lambda>_. 0), target_temperature_bed = 0, fan_speed = (\<lambda>_. 0),
      flag_leveling = False, fade = fzero F, gradient = [], retract = (\<lambda>_. fzero F),
      retract_hop = fzero F, print_job_elapsed = 0, print_progress = 0, axis_relative = 0,
      flag_dryrun = False, flag_allow_cold_extrusion = False, sd_filename = [], sdpos = 0,
      valid_foot = 0\<rparr>"

subsection \<open>The machine and the engine's state\<close>

text \<open>
  What the engine reads from its collaborators at the time of a call: \<open>millis()\<close>, the
  globals of the motion module, the planner, the temperature manager, the retract
  feature, the print timer, the card, the parser and the debug flags.
\<close>

record 'f machine =
  ms :: u32
  current_position_now :: "'f xyze_pos_t"
  feedrate_mm_s :: 'f
  repeat_now :: "u8 list"
  home_offset_now :: "nat \<Rightarrow> 'f"
  position_shift_now :: "nat \<Rightarrow> 'f"
  active_extruder_now :: u8
  parser_volumetric_enabled :: bool
  planner_filament_size :: "nat \<Rightarrow> 'f"
  temp_hotend_target :: "nat \<Rightarrow> 16 word"
  temp_bed_target :: "16 word"
  thermalManager_fan_speed :: "nat \<Rightarrow> u8"
  planner_leveling_active :: bool
  planner_z_fade_height :: 'f
  mixer_gradient :: "u8 list"
  fwretract_current_retract :: "nat \<Rightarrow> 'f"
  fwretract_current_hop :: 'f
  print_job_timer_duration :: u32
  card_percentDone :: u8
  gcode_axis_relative :: u8
  debug_dryrun :: bool
  allow_cold_extrude :: bool
  IS_SD_PRINTING :: bool
  card_isMounted :: bool
  card_getAbsFilename :: string

datatype 'f flash_op = FLASH_If_Write "'f job_recovery_info_t" | FLASH_If_Erase

text \<open>
  What the engine does to its collaborators, in order: a G-code string given to
  \<open>gcode.process_subcommands_now\<close>, and the other calls and assignments by name.
\<close>

datatype plr_event =
    Gcode string
  | Set_dryrun
  | Restore_cold_extrude
  | Set_all_homed
  | Restore_fwretract
  | Restore_gradient
  | Babystep_add_steps
  | Restore_workspace
  | Restore_axis_relative
  | Heater_pins_off
  | ExtUI_onPowerLoss
  | Stepper_pins_off
  | Disable_all_heaters
  | Quickstop_stepper
  | Set_relative_mode
  | Planner_synchronize
  | Kill

text \<open>
  The static members of \<open>PrintJobRecovery\<close>, the function-statics \<open>next_save_ms\<close> (of
  \<open>save\<close>), \<open>cnt\<close> and \<open>adc_raw_last\<close> (of \<open>outage\<close>) and \<open>lock\<close> (of \<open>_outage\<close>), and
  the effects as logs: the operations on the flash page of the snapshot, the strings
  given to \<open>queue.inject_P\<close>, the events above, and the number of reads of the sensed
  voltage. \<open>killed\<close> holds once \<open>kill\<close> has been called.
\<close>

record 'f recovery =
  enabled :: bool
  info :: "'f job_recovery_info_t"
  cmd_sdpos :: u32
  next_save_ms :: u32
  outage_cnt :: u8
  adc_raw_last :: u32
  lock :: bool
  flash_ops :: "'f flash_op list"
  queue_injected :: "string list"
  events :: "plr_event list"
  adc_reads :: nat
  killed :: bool

subsection \<open>Saving\<close>

text \<open>
  Modelled from the spec: the macro \<open>ELAPSED\<close> (core/macros.h) is not among the sources.
  The spec has the save happen "when a minimum elapsed-time interval has passed";
  with the 32-bit millisecond counter that wraps around, the time \<open>soon\<close> has passed at
  \<open>now\<close> when the difference \<open>now - soon\<close>, read as a signed 32-bit number, is not
  negative.
\<close>

definition ELAPSED :: "u32 \<Rightarrow> u32 \<Rightarrow> bool" where
  "ELAPSED now soon = (0 \<le> sint (now - soon))"

text \<open>
  \<open>PrintJobRecovery::write\<close> (\<open>write\<close> is a keyword of Isabelle): one write of the
  record to the flash page.
\<close>

definition write_info :: "'f recovery \<Rightarrow> 'f recovery" where
  "write_info r = r\<lparr>flash_ops := flash_ops r @ [FLASH_If_Write (info r)]\<rparr>"

text \<open>The head marker after \<open>if (!++info.valid_head) ++info.valid_head\<close>.\<close>

definition next_head :: "u8 \<Rightarrow> u8" where
  "next_head h = (if h + 1 = 0 then h + 1 + 1 else h + 1)"

text \<open>
  The assignments of \<open>save\<close> to the fields of \<open>info\<close>, in the order of the source
  and in the groups that its comments and conditionals make.
\<close>

definition save_markers :: "'f job_recovery_info_t \<Rightarrow> 'f job_recovery_info_t" where
  "save_markers i =
     (let i1 = i\<lparr>valid_head := next_head (valid_head i)\<rparr>
      in i1\<lparr>valid_foot := valid_head i1\<rparr>)"

definition save_machine_state ::
  "'f fops \<Rightarrow> 'f \<Rightarrow> 'f machine \<Rightarrow> 'f job_recovery_info_t \<Rightarrow> 'f job_recovery_info_t" where
  "save_machine_state F zr M i =
     i\<lparr>current_position := current_position_now M,
       feedrate := mmm_u16 F (feedrate_mm_s M),
       zraise := zr\<rparr>"

definition save_workspace ::
  "plr_config \<Rightarrow> 'f machine \<Rightarrow> 'f job_recovery_info_t \<Rightarrow> 'f job_recovery_info_t" where
  "save_workspace C M i =
     (let i1 = (if GCODE_REPEAT_MARKERS C then i\<lparr>stored_repeat := repeat_now M\<rparr> else i);
          i2 = (if HAS_HOME_OFFSET C then i1\<lparr>home_offset := home_offset_now M\<rparr> else i1)
      in if HAS_POSITION_SHIFT C then i2\<lparr>position_shift := position_shift_now M\<rparr>
         else i2)"

definition save_extruders ::
  "plr_config \<Rightarrow> 'f machine \<Rightarrow> 'f job_recovery_info_t \<Rightarrow> 'f job_recovery_info_t" where
  "save_extruders C M i =
     (let i1 = (if HAS_MULTI_EXTRUDER C then i\<lparr>active_extruder := active_extruder_now M\<rparr>
                else i)
      in if \<not> NO_VOLUMETRICS C then
           (let j = i1\<lparr>volumetric_enabled := parser_volumetric_enabled M\<rparr>
            in if HAS_MULTI_EXTRUDER C then
                 j\<lparr>filament_size := (\<lambda>e. if e < EXTRUDERS C then planner_filament_size M e
                                         else filament_size j e)\<rparr>
               else if parser_volumetric_enabled M then
                 j\<lparr>filament_size := (filament_size j)
                     (0 := planner_filament_size M (unat (active_extruder_now M)))\<rparr>
               else j)
         else i1)"

definition save_temperatures ::
  "plr_config \<Rightarrow> 'f machine \<Rightarrow> 'f job_recovery_info_t \<Rightarrow> 'f job_recovery_info_t" where
  "save_temperatures C M i =
     (let i1 = (if 0 < EXTRUDERS C then
                  i\<lparr>target_temperature := (\<lambda>e. if e < HOTENDS C then temp_hotend_target M e
                                                 else target_temperature i e)\<rparr>
                else i)
      in if HAS_HEATED_BED C then i1\<lparr>target_temperature_bed := temp_bed_target M\<rparr>
         else i1)"

definition save_fans_leveling ::
  "plr_config \<Rightarrow> 'f fops \<Rightarrow> 'f machine \<Rightarrow> 'f job_recovery_info_t
     \<Rightarrow> 'f job_recovery_info_t" where
  "save_fans_leveling C F M i =
     (let i1 = (if HAS_FAN C then
                  i\<lparr>fan_speed := (\<lambda>k. if k < FAN_COUNT C then thermalManager_fan_speed M k
                                        else fan_speed i k)\<rparr>
                else i)
      in if HAS_LEVELING C then
           i1\<lparr>flag_leveling := planner_leveling_active M,
              fade := (if ENABLE_LEVELING_FADE_HEIGHT C then planner_z_fade_height M
                       else fzero F)\<rparr>
         else i1)"

definition save_mix_retract ::
  "plr_config \<Rightarrow> 'f machine \<Rightarrow> 'f job_recovery_info_t \<Rightarrow> 'f job_recovery_info_t" where
  "save_mix_retract C M i =
     (let i1 = (if GRADIENT_MIX C then i\<lparr>gradient := mixer_gradient M\<rparr> else i)
      in if FWRETRACT C then
           i1\<lparr>retract := (\<lambda>e. if e < EXTRUDERS C then fwretract_current_retract M e
                                else retract i1 e),
              retract_hop := fwretract_current_hop M\<rparr>
         else i1)"

definition save_job ::
  "plr_config \<Rightarrow> 'f machine \<Rightarrow> 'f job_recovery_info_t \<Rightarrow> 'f job_recovery_info_t" where
  "save_job C M i =
     i\<lparr>print_job_elapsed := print_job_timer_duration M,
       print_progress := card_percentDone M,
       axis_relative := gcode_axis_relative M,
       flag_dryrun := debug_dryrun M,
       flag_allow_cold_extrusion :=
         (if PREVENT_COLD_EXTRUSION C then allow_cold_extrude M else False)\<rparr>"

definition snapshot ::
  "plr_config \<Rightarrow> 'f fops \<Rightarrow> 'f \<Rightarrow> 'f machine \<Rightarrow> 'f job_recovery_info_t
     \<Rightarrow> 'f job_recovery_info_t" where
  "snapshot C F zr M i =
     save_job C M
       (save_mix_retract C M
         (save_fans_leveling C F M
           (save_temperatures C M
             (save_extruders C M
               (save_workspace C M
                 (save_machine_state F zr M
                   (save_markers i)))))))"

text \<open>The condition of \<open>save\<close> under which it writes.\<close>

definition save_due :: "plr_config \<Rightarrow> 'f fops \<Rightarrow> bool \<Rightarrow> 'f machine \<Rightarrow> 'f recovery \<Rightarrow> bool" where
  "save_due C F force M r =
     (force
      \<or> (\<not> SAVE_EACH_CMD_MODE C
          \<and> ((0 < SAVE_INFO_INTERVAL_MS C \<and> ELAPSED (ms M) (next_save_ms r))
             \<or> z_changed F (pos_z (current_position_now M))
                  (pos_z (current_position (info r))))))"

text \<open>\<open>PrintJobRecovery::save(force, zraise)\<close>.\<close>

definition save ::
  "plr_config \<Rightarrow> 'f fops \<Rightarrow> bool \<Rightarrow> 'f \<Rightarrow> 'f machine \<Rightarrow> 'f recovery \<Rightarrow> 'f recovery" where
  "save C F force zr M r =
     (if save_due C F force M r then
        (let r1 = (if 0 < SAVE_INFO_INTERVAL_MS C
                   then r\<lparr>next_save_ms := ms M + SAVE_INFO_INTERVAL_MS C\<rparr> else r)
         in write_info (r1\<lparr>info := snapshot C F zr M (info r1)\<rparr>))
      else r)"

subsection \<open>Loading and checking\<close>

text \<open>\<open>purge\<close>: the flash page is erased unless both markers read 0xFF; the record is zeroed.\<close>

definition purge :: "'f fops \<Rightarrow> 'f recovery \<Rightarrow> 'f recovery" where
  "purge F r =
     (let r1 = (if valid_head (info r) \<noteq> 0xFF \<or> valid_foot (info r) \<noteq> 0xFF
                then r\<lparr>flash_ops := flash_ops r @ [FLASH_If_Erase]\<rparr> else r)
      in r1\<lparr>info := zero_info F\<rparr>)"

definition init :: "'f fops \<Rightarrow> 'f recovery \<Rightarrow> 'f recovery" where
  "init F r = r\<lparr>info := zero_info F\<rparr>"

text \<open>\<open>load\<close> copies the flash page into \<open>info\<close>; \<open>stored\<close> is the record the page holds.\<close>

definition load :: "'f job_recovery_info_t \<Rightarrow> 'f recovery \<Rightarrow> 'f recovery" where
  "load stored r = r\<lparr>info := stored\<rparr>"

text \<open>
  Modelled from the spec: \<open>valid\<close> is defined in powerloss.h, which is not among the
  sources. The spec: "the record is considered valid only if \<open>head == foot\<close> and both are
  non-zero".
\<close>

definition valid :: "'f recovery \<Rightarrow> bool" where
  "valid r = (valid_head (info r) \<noteq> 0 \<and> valid_head (info r) = valid_foot (info r))"

text \<open>
  Modelled from the spec: \<open>cancel\<close> is defined in powerloss.h, which is not among the
  sources. The spec: "if markers are invalid, clears state and takes no further action";
  the record is "erased (zeroed and physically purged)", which is what \<open>purge\<close> does.
\<close>

definition cancel :: "'f fops \<Rightarrow> 'f recovery \<Rightarrow> 'f recovery" where
  "cancel F r = purge F r"

text \<open>\<open>PrintJobRecovery::check\<close>, called during setup.\<close>

definition check ::
  "'f fops \<Rightarrow> 'f machine \<Rightarrow> 'f job_recovery_info_t \<Rightarrow> 'f recovery \<Rightarrow> 'f recovery" where
  "check F M stored r =
     (if card_isMounted M then
        (let r1 = load stored r
         in if \<not> valid r1 then cancel F r1
            else r1\<lparr>queue_injected := queue_injected r1 @ [''M1000S'']\<rparr>)
      else r)"

text \<open>\<open>changed\<close> and \<open>enable\<close>; \<open>save(true)\<close> passes the default \<open>zraise\<close> of 0.\<close>

definition changed :: "plr_config \<Rightarrow> 'f fops \<Rightarrow> 'f machine \<Rightarrow> 'f recovery \<Rightarrow> 'f recovery" where
  "changed C F M r =
     (if \<not> enabled r then purge F r
      else if IS_SD_PRINTING M then save C F True (fzero F) M r
      else r)"

definition enable ::
  "plr_config \<Rightarrow> 'f fops \<Rightarrow> 'f machine \<Rightarrow> bool \<Rightarrow> 'f recovery \<Rightarrow> 'f recovery" where
  "enable C F M onoff r = changed C F M (r\<lparr>enabled := onoff\<rparr>)"

definition prepare :: "'f machine \<Rightarrow> 'f recovery \<Rightarrow> 'f recovery" where
  "prepare M r =
     r\<lparr>info := (info r)\<lparr>sd_filename := card_getAbsFilename M\<rparr>, cmd_sdpos := 0\<rparr>"

subsection \<open>Power-loss interrupt path\<close>

text \<open>
  One call of \<open>outage\<close>: the machine at that time, the three values that the three
  reads of \<open>power_monitor.getVoltsADC()\<close> return, and the calls of \<open>outage\<close> that
  \<open>idle()\<close> makes while \<open>retract_and_lift\<close> waits in \<open>planner.synchronize()\<close>, should
  this call get there.
\<close>

datatype 'f outage_call =
  Outage_call "'f machine" u32 u32 u32 "'f outage_call list"

text \<open>The pieces of \<open>outage\<close>: one read of the voltage; the rest of the branch for a
  voltage below 2200, after \<open>_outage\<close> was or was not called; the branch for a voltage of
  2200 or more. Both branches end with \<open>adc_raw_last = getVoltsADC()\<close>.\<close>

definition count_read :: "'f recovery \<Rightarrow> 'f recovery" where
  "count_read r = r\<lparr>adc_reads := adc_reads r + 1\<rparr>"

definition sample_low :: "u32 \<Rightarrow> u32 \<Rightarrow> 'f recovery \<Rightarrow> 'f recovery" where
  "sample_low v2 v3 r =
     (let r3 = count_read r;
          r4 = (if v2 < adc_raw_last r3 then r3\<lparr>outage_cnt := outage_cnt r3 + 1\<rparr> else r3)
      in (count_read r4)\<lparr>adc_raw_last := v3\<rparr>)"

definition sample_high :: "u32 \<Rightarrow> 'f recovery \<Rightarrow> 'f recovery" where
  "sample_high v3 r =
     (let r2 = (if outage_cnt r \<noteq> 0 then r\<lparr>outage_cnt := 0\<rparr> else r)
      in (count_read r2)\<lparr>adc_raw_last := v3\<rparr>)"

text \<open>
  The pieces of \<open>_outage\<close>: the limited Z raise; the part from taking the lock to
  \<open>disable_all_heaters\<close>, with the forced save during an SD print; the hard stop of the
  steppers; and \<open>kill\<close>.

  Modelled from the spec: \<open>kill\<close> (MarlinCore.cpp) is not among the sources. The spec
  has the path end by "halting" and speaks of calls "before the system fully halts": once
  \<open>kill\<close> has been called nothing runs any more, neither the rest of the caller nor a
  later call.
\<close>

definition outage_zraise :: "plr_config \<Rightarrow> 'f fops \<Rightarrow> 'f machine \<Rightarrow> 'f" where
  "outage_zraise C F M =
     (if POWER_LOSS_ZRAISE_set C then limited_zraise F (pos_z (current_position_now M))
      else fzero F)"

definition critical_head ::
  "plr_config \<Rightarrow> 'f fops \<Rightarrow> 'f machine \<Rightarrow> 'f recovery \<Rightarrow> 'f recovery" where
  "critical_head C F M r =
     (let r1 = (if BACKUP_POWER_SUPPLY C then r\<lparr>lock := True\<rparr> else r);
          r2 = r1\<lparr>events := events r1
                       @ [Heater_pins_off, ExtUI_onPowerLoss, Stepper_pins_off]\<rparr>;
          r3 = (if IS_SD_PRINTING M then save C F True (outage_zraise C F M) M r2 else r2)
      in r3\<lparr>events := events r3 @ [Disable_all_heaters]\<rparr>)"

definition quickstop_stepper :: "'f recovery \<Rightarrow> 'f recovery" where
  "quickstop_stepper r = r\<lparr>events := events r @ [Quickstop_stepper]\<rparr>"

definition kill :: "'f recovery \<Rightarrow> 'f recovery" where
  "kill r = r\<lparr>events := events r @ [Kill], killed := True\<rparr>"

text \<open>The commands of \<open>retract_and_lift\<close> up to \<open>planner.synchronize()\<close>.\<close>

definition lift_commands :: "plr_config \<Rightarrow> 'f fops \<Rightarrow> 'f \<Rightarrow> 'f recovery \<Rightarrow> 'f recovery" where
  "lift_commands C F zr r =
     r\<lparr>events := events r @ [Set_relative_mode]
          @ (if retract_len C \<noteq> 0
             then [Gcode (''G1 F3000 E-'' @ show_int (retract_len C))] else [])
          @ (if POWER_LOSS_ZRAISE_set C \<and> nonzero F zr
             then [Gcode (''G0 Z'' @ dtostrf F zr 1 3)] else [])
          @ [Planner_synchronize]\<rparr>"

text \<open>
  \<open>outage\<close>, \<open>_outage\<close> (here \<open>outage_inner\<close>: an Isabelle name cannot begin with an
  underscore), \<open>retract_and_lift\<close>, and \<open>idle_calls\<close> for a sequence of calls of
  \<open>outage\<close>, one after the other.
\<close>

fun outage ::
    "plr_config \<Rightarrow> 'f fops \<Rightarrow> 'f outage_call \<Rightarrow> 'f recovery \<Rightarrow> 'f recovery"
  and outage_inner ::
    "plr_config \<Rightarrow> 'f fops \<Rightarrow> 'f machine \<Rightarrow> 'f outage_call list \<Rightarrow> 'f recovery
       \<Rightarrow> 'f recovery"
  and retract_and_lift ::
    "plr_config \<Rightarrow> 'f fops \<Rightarrow> 'f \<Rightarrow> 'f outage_call list \<Rightarrow> 'f recovery \<Rightarrow> 'f recovery"
  and idle_calls ::
    "plr_config \<Rightarrow> 'f fops \<Rightarrow> 'f outage_call list \<Rightarrow> 'f recovery \<Rightarrow> 'f recovery"
where
  "outage C F (Outage_call M v1 v2 v3 nested) r =
     (if killed r then r
      else if \<not> enabled r then r
      else if v1 < 2200 then
        (let r2 = (if 4 \<le> outage_cnt r then outage_inner C F M nested (count_read r)
                   else count_read r)
         in if killed r2 then r2 else sample_low v2 v3 r2)
      else sample_high v3 (count_read r))"
| "outage_inner C F M nested r =
     (if BACKUP_POWER_SUPPLY C \<and> lock r then r
      else
        kill (if BACKUP_POWER_SUPPLY C
              then retract_and_lift C F (outage_zraise C F M) nested
                     (quickstop_stepper (critical_head C F M r))
              else critical_head C F M r))"
| "retract_and_lift C F zr nested r =
     (if retract_len C \<noteq> 0 \<or> POWER_LOSS_ZRAISE_set C
      then idle_calls C F nested (lift_commands C F zr r)
      else r)"
| "idle_calls C F [] r = r"
| "idle_calls C F (c # cs) r = idle_calls C F cs (outage C F c r)"

text \<open>
  The engine before the first call of \<open>outage\<close>: the statics at their initial values,
  the logs empty.
\<close>

definition recovery_init :: "'f fops \<Rightarrow> bool \<Rightarrow> 'f recovery" where
  "recovery_init F en =
     \<lparr>enabled = en, info = zero_info F, cmd_sdpos = 0, next_save_ms = 0, outage_cnt = 0,
      adc_raw_last = 0, lock = False, flash_ops = [], queue_injected = [], events = [],
      adc_reads = 0, killed = False\<rparr>"

subsection \<open>Resuming\<close>

text \<open>
  The statements of \<open>resume\<close> in the order of the source, each as the events it adds.
  \<open>DEBUG_POWERLOSS_RESUME\<close> is defined as \<open>false\<close>, so its blocks are not compiled.
  \<open>%i\<close> and \<open>%d\<close> print a signed decimal and \<open>%ld\<close> prints the 32 bits as a signed
  number.
\<close>

definition newline :: string where
  "newline = [CHR 0x0A]"

definition resume_flags :: "plr_config \<Rightarrow> 'f job_recovery_info_t \<Rightarrow> plr_event list" where
  "resume_flags C i =
     (if flag_dryrun i then [Set_dryrun] else [])
     @ (if PREVENT_COLD_EXTRUSION C then [Restore_cold_extrude] else [])"

definition resume_leveling_off :: "plr_config \<Rightarrow> plr_event list" where
  "resume_leveling_off C = (if HAS_LEVELING C then [Gcode ''M420 S0 Z0''] else [])"

text \<open>The bed temperature: \<open>M140\<close> without waiting, later \<open>M190\<close> with waiting.\<close>

definition resume_bed ::
  "plr_config \<Rightarrow> string \<Rightarrow> 'f job_recovery_info_t \<Rightarrow> plr_event list" where
  "resume_bed C cmd i =
     (if HAS_HEATED_BED C \<and> target_temperature_bed i \<noteq> 0
      then [Gcode (cmd @ show_int (sint (target_temperature_bed i)))] else [])"

text \<open>The hotend temperatures: \<open>M104\<close> without waiting, later \<open>M109\<close> with waiting.\<close>

definition resume_hotend ::
  "plr_config \<Rightarrow> string \<Rightarrow> 'f job_recovery_info_t \<Rightarrow> nat \<Rightarrow> plr_event list" where
  "resume_hotend C cmd i e =
     (if target_temperature i e \<noteq> 0 then
        (if HAS_MULTI_HOTEND C then [Gcode (''T'' @ show_nat e @ '' S'')] else [])
        @ [Gcode (cmd @ show_int (sint (target_temperature i e)))]
      else [])"

definition resume_hotends ::
  "plr_config \<Rightarrow> string \<Rightarrow> 'f job_recovery_info_t \<Rightarrow> plr_event list" where
  "resume_hotends C cmd i =
     (if HAS_HOTEND C then concat (map (resume_hotend C cmd i) [0..<HOTENDS C]) else [])"

text \<open>Reset E and home: all axes when Z homes to the maximum, otherwise X and Y unless
  the configuration asks for Z as well.\<close>

definition resume_home ::
  "plr_config \<Rightarrow> 'f fops \<Rightarrow> 'f job_recovery_info_t \<Rightarrow> plr_event list" where
  "resume_home C F i =
     (if Z_HOME_DIR_pos C then [Gcode (''G92.9 E0'' @ newline @ ''G28R0'')]
      else
        [Gcode (''G92.9 E0 ''
                @ (if BACKUP_POWER_SUPPLY C then ''Z'' @ dtostrf F (zraise i) 1 3
                   else ''Z0'' @ newline @ ''G1Z'' @ dtostrf F (zraise i) 1 3)),
         Gcode (''G28R2''
                @ (if IS_CARTESIAN C \<and> \<not> POWER_LOSS_RECOVER_ZHOME C then ''XY'' else ''''))])"

definition resume_homed ::
  "plr_config \<Rightarrow> 'f fops \<Rightarrow> 'f job_recovery_info_t \<Rightarrow> plr_event list" where
  "resume_homed C F i =
     [Set_all_homed]
     @ (if POWER_LOSS_RECOVER_ZHOME C
        then [Gcode (''G1 F500 Z''
                     @ dtostrf F (plus_zraise F (pos_z (current_position i))) 1 3)]
        else [])"

definition resume_volumetric ::
  "plr_config \<Rightarrow> 'f fops \<Rightarrow> 'f job_recovery_info_t \<Rightarrow> plr_event list" where
  "resume_volumetric C F i =
     (if \<not> NO_VOLUMETRICS C then
        (if HAS_MULTI_EXTRUDER C then
           map (\<lambda>e. Gcode (''M200 T'' @ show_nat e @ '' D''
                            @ dtostrf F (filament_size i e) 1 3)) [0..<EXTRUDERS C]
           @ (if \<not> volumetric_enabled i
              then [Gcode (''M200 T'' @ show_nat (unat (active_extruder i)) @ '' D0'')]
              else [])
         else
           (if volumetric_enabled i
            then [Gcode (''M200 D'' @ dtostrf F (filament_size i 0) 1 3)] else []))
      else [])"

definition resume_tool :: "plr_config \<Rightarrow> 'f job_recovery_info_t \<Rightarrow> plr_event list" where
  "resume_tool C i =
     (if HAS_MULTI_EXTRUDER C
      then [Gcode (''T'' @ show_nat (unat (active_extruder i)) @ '' S'')] else [])"

definition resume_fan :: "'f job_recovery_info_t \<Rightarrow> nat \<Rightarrow> plr_event list" where
  "resume_fan i k =
     (if fan_speed i k \<noteq> 0
      then [Gcode (''M106 P'' @ show_nat k @ '' S'' @ show_nat (unat (fan_speed i k)))]
      else [])"

definition resume_fans :: "plr_config \<Rightarrow> 'f job_recovery_info_t \<Rightarrow> plr_event list" where
  "resume_fans C i =
     (if HAS_FAN C then concat (map (resume_fan i) [0..<FAN_COUNT C]) else [])"

definition resume_leveling_on ::
  "plr_config \<Rightarrow> 'f fops \<Rightarrow> 'f job_recovery_info_t \<Rightarrow> plr_event list" where
  "resume_leveling_on C F i =
     (if HAS_LEVELING C \<and> (nonzero F (fade i) \<or> flag_leveling i)
      then [Gcode (''M420 S'' @ (if flag_leveling i then ''1'' else ''0'') @ '' Z''
                   @ dtostrf F (fade i) 1 1)]
      else [])"

definition resume_extrude :: "plr_config \<Rightarrow> plr_event list" where
  "resume_extrude C =
     (if retract_len C \<noteq> 0
      then [Gcode (''G1 E'' @ show_int (retract_len C) @ '' F3000'')] else [])
     @ (if POWER_LOSS_PURGE_LEN C \<noteq> 0
        then [Gcode (''G1 E'' @ show_int (POWER_LOSS_PURGE_LEN C + retract_len C)
                     @ '' F200'')]
        else [])
     @ (if NOZZLE_CLEAN_FEATURE C then [Gcode ''G12''] else [])"

text \<open>The Z correction by babysteps; the number of steps is computed in floating point
  from the leveling data and is not part of the event.\<close>

definition resume_babystep ::
  "plr_config \<Rightarrow> 'f fops \<Rightarrow> 'f job_recovery_info_t \<Rightarrow> plr_event list" where
  "resume_babystep C F i =
     (if BABYSTEPPING C then
        [Gcode (''G92.9 Z'' @ dtostrf F (plus_2mm F (pos_z (current_position i))) 1 3),
         Babystep_add_steps,
         Gcode (''M400'' @ newline @ ''G4 P1000'')]
      else [])"

text \<open>Back to the saved X and Y, then down to the saved Z, then the feedrate and E.\<close>

definition resume_move :: "'f fops \<Rightarrow> 'f job_recovery_info_t \<Rightarrow> plr_event list" where
  "resume_move F i =
     [Gcode (''G1 X'' @ dtostrf F (pos_x (current_position i)) 1 3
             @ '' Y'' @ dtostrf F (pos_y (current_position i)) 1 3 @ '' F3000''),
      Gcode ''M400'',
      Gcode (''G1 Z'' @ dtostrf F (pos_z (current_position i)) 1 3 @ '' F200''),
      Gcode (''G1 F'' @ show_nat (unat (feedrate i))),
      Gcode (''G92.9 E'' @ dtostrf F (pos_e (current_position i)) 1 3)]"

definition resume_workspace :: "plr_config \<Rightarrow> plr_event list" where
  "resume_workspace C =
     (if GCODE_REPEAT_MARKERS C \<or> HAS_HOME_OFFSET C \<or> HAS_POSITION_SHIFT C
      then [Restore_workspace] else [])
     @ [Restore_axis_relative]"

text \<open>Everything before \<open>enable(true)\<close>.\<close>

definition resume_restore ::
  "plr_config \<Rightarrow> 'f fops \<Rightarrow> 'f job_recovery_info_t \<Rightarrow> plr_event list" where
  "resume_restore C F i =
     resume_flags C i
     @ resume_leveling_off C
     @ resume_bed C ''M140 S'' i
     @ resume_hotends C ''M104 S'' i
     @ resume_bed C ''M190 S'' i
     @ resume_hotends C ''M109 S'' i
     @ resume_home C F i
     @ resume_homed C F i
     @ resume_volumetric C F i
     @ resume_tool C i
     @ resume_fans C i
     @ (if FWRETRACT C then [Restore_fwretract] else [])
     @ resume_leveling_on C F i
     @ (if GRADIENT_MIX C then [Restore_gradient] else [])
     @ resume_extrude C
     @ resume_babystep C F i
     @ resume_move F i
     @ resume_workspace C"

text \<open>The file is selected and started after \<open>enable(true)\<close>, from the record as it is
  then; the byte offset was read at the beginning.\<close>

definition resume_file ::
  "plr_config \<Rightarrow> u32 \<Rightarrow> 'f job_recovery_info_t \<Rightarrow> plr_event list" where
  "resume_file C resume_sdpos i =
     [Gcode (M23_STR C (sd_filename i)),
      Gcode (''M24 S'' @ show_int (sint resume_sdpos)
             @ '' T'' @ show_int (sint (print_job_elapsed i)))]"

text \<open>\<open>PrintJobRecovery::resume\<close>; \<open>M\<close> is the machine at the time of \<open>enable(true)\<close>.\<close>

definition resume ::
  "plr_config \<Rightarrow> 'f fops \<Rightarrow> 'f machine \<Rightarrow> 'f recovery \<Rightarrow> 'f recovery" where
  "resume C F M r =
     (let resume_sdpos = sdpos (info r);
          r1 = r\<lparr>events := events r @ resume_restore C F (info r)\<rparr>;
          r2 = enable C F M True r1
      in r2\<lparr>events := events r2 @ resume_file C resume_sdpos (info r2)\<rparr>)"

text \<open>The G-code strings among events, in order.\<close>

definition gcodes :: "plr_event list \<Rightarrow> string list" where
  "gcodes evs = concat (map (\<lambda>ev. case ev of Gcode c \<Rightarrow> [c] | _ \<Rightarrow> []) evs)"

subsection \<open>The panel at start-up\<close>

text \<open>
  Modelled from the spec: \<open>ui8tostr3rj\<close> (libs/numtostr.cpp) is not among the sources.
  The spec has the saved progress of 42 "rendered as \<open>"42"\<close>": the decimal digits of the
  number.
\<close>

definition ui8tostr3rj :: "u8 \<Rightarrow> string" where
  "ui8tostr3rj i = show_nat (unat i)"

text \<open>
  The branch of \<open>ProcessPanelRequest\<close> for a read response (\<open>0x83\<close>) from the address
  \<open>REG_LCD_READY\<close>. \<open>control_value\<close> gets its low three bytes from \<open>data_buf[5]\<close>,
  \<open>data_buf[4]\<close> and \<open>data_buf[3]\<close>. \<open>getLongPath\<close> is the card's (not among the
  sources); it writes the long path into the local buffer \<open>filename\<close> of 64 bytes, and
  a path that does not fit there with its terminator gives \<open>None\<close>. \<open>light\<close> is
  \<open>getCaseLightState()\<close>.
\<close>

definition lcd_ready_request ::
  "panel_config \<Rightarrow> (string \<Rightarrow> string) \<Rightarrow> bool \<Rightarrow> 'f job_recovery_info_t \<Rightarrow> u8 list
     \<Rightarrow> tft \<Rightarrow> tft option" where
  "lcd_ready_request C getLongPath light rec_info buf s =
     (let control_value =
            (ucast (buf ! 5) :: u32) OR push_bit 8 (ucast (buf ! 4))
              OR push_bit 16 (ucast (buf ! 3))
      in if control_value = 0x010072 then
           (let s1 = LcdAudioSet (audio s) s;
                s2 = SendValueToTFT 2 ADDRESS_MOVE_DISTANCE s1;
                s3 = (if CASE_LIGHT_ENABLE C
                      then SendValueToTFT (if light then 1 else 0)
                             ADDRESS_PRINT_SETTING_LED_STATUS
                             (SendValueToTFT (if light then 1 else 0)
                                ADDRESS_SYSTEM_LED_STATUS s2)
                      else s2)
            in if printer_state s3 = AC_printer_resuming_from_power_outage then
                 (if 64 \<le> length (getLongPath (sd_filename rec_info)) then None
                  else
                    (case SendTxtToTFT (getLongPath (sd_filename rec_info))
                            TXT_OUTAGE_RECOVERY_FILE
                            (ChangePageOfTFT PAGE_OUTAGE_RECOVERY s3) of
                       None \<Rightarrow> None
                     | Some s4 \<Rightarrow>
                         (case SendTxtToTFT (ui8tostr3rj (print_progress rec_info))
                                 TXT_OUTAGE_RECOVERY_PROGRESS s4 of
                            None \<Rightarrow> None
                          | Some s5 \<Rightarrow> Some (s5\<lparr>tunes := tunes s5 @ [SOS]\<rparr>))))
               else Some (ChangePageOfTFT PAGE_MAIN s3))
         else if control_value = 0x010000 then
           Some (s\<lparr>tunes := tunes s @ [Anycubic_PowerOn]\<rparr>)
         else Some s)"

subsection \<open>An instance of the parameters\<close>

text \<open>
  An instance of the floating-point operations with lengths as whole thousandths of a
  millimetre, a Z-change threshold of 0.05 mm, a Z raise of 2 mm and a Z travel of
  250 mm; a configuration of the kind the README describes (Cartesian, one hotend, a
  heated bed, a fan, bed leveling with babystepping, Z homing to the minimum, a backup
  supply with a retract of 10 mm); and a machine in the middle of a print from the card.
\<close>

definition example_fops :: "int fops" where
  "example_fops =
     \<lparr>dtostrf = (\<lambda>v w p. show_int (v div 1000) @ ''.''
                    @ take p [digit_char (nat (v mod 1000 div 100)),
                              digit_char (nat (v mod 1000 div 10)),
                              digit_char (nat (v mod 1000))]),
      nonzero = (\<lambda>v. v \<noteq> 0),
      fzero = 0,
      z_changed = (\<lambda>cur saved. saved + 50 < cur),
      plus_2mm = (\<lambda>z. z + 2000),
      plus_zraise = (\<lambda>z. z + 2000),
      limited_zraise = (\<lambda>z. max 0 (min (z + 2000) 249000 - z)),
      mmm_u16 = (\<lambda>v. word_of_int (v * 60 div 1000))\<rparr>"

definition example_plr_config :: plr_config where
  "example_plr_config =
     \<lparr>SAVE_INFO_INTERVAL_MS = 1000, SAVE_EACH_CMD_MODE = False,
      BACKUP_POWER_SUPPLY = True, POWER_LOSS_RETRACT_LEN = 10, POWER_LOSS_PURGE_LEN = 0,
      POWER_LOSS_ZRAISE_set = True, POWER_LOSS_RECOVER_ZHOME = False,
      Z_HOME_DIR_pos = False, IS_CARTESIAN = True, HAS_LEVELING = True,
      ENABLE_LEVELING_FADE_HEIGHT = True, HAS_HEATED_BED = True, HAS_HOTEND = True,
      HAS_MULTI_HOTEND = False, HOTENDS = 1, HAS_MULTI_EXTRUDER = False, EXTRUDERS = 1,
      NO_VOLUMETRICS = False, HAS_FAN = True, FAN_COUNT = 1, FWRETRACT = False,
      NOZZLE_CLEAN_FEATURE = False, BABYSTEPPING = True, GCODE_REPEAT_MARKERS = False,
      HAS_HOME_OFFSET = True, HAS_POSITION_SHIFT = True, GRADIENT_MIX = False,
      PREVENT_COLD_EXTRUSION = True, M23_STR = (\<lambda>fn. ''M23 '' @ fn)\<rparr>"

definition example_machine :: "int machine" where
  "example_machine =
     \<lparr>ms = 60000,
      current_position_now = \<lparr>pos_x = 100000, pos_y = 90000, pos_z = 12400, pos_e = 1234\<rparr>,
      feedrate_mm_s = 50000, repeat_now = [], home_offset_now = (\<lambda>_. 0),
      position_shift_now = (\<lambda>_. 0), active_extruder_now = 0,
      parser_volumetric_enabled = False, planner_filament_size = (\<lambda>_. 1750),
      temp_hotend_target = (\<lambda>_. 200), temp_bed_target = 60,
      thermalManager_fan_speed = (\<lambda>_. 255), planner_leveling_active = True,
      planner_z_fade_height = 10000, mixer_gradient = [],
      fwretract_current_retract = (\<lambda>_. 0), fwretract_current_hop = 0,
      print_job_timer_duration = 3600, card_percentDone = 42, gcode_axis_relative = 0,
      debug_dryrun = False, allow_cold_extrude = False, IS_SD_PRINTING = True,
      card_isMounted = True, card_getAbsFilename = ''/TEST.GCO''\<rparr>"

text \<open>The snapshot of the boot scenario: markers 3 and 3, 42 percent, \<open>/TEST.GCO\<close>.\<close>

definition example_snapshot :: "int job_recovery_info_t" where
  "example_snapshot =
     (zero_info example_fops)
       \<lparr>valid_head := 3, valid_foot := 3, print_progress := 42,
        sd_filename := ''/TEST.GCO''\<rparr>"

text \<open>
  After the restart: the record saved in the middle of that print with a Z raise of
  2 mm, at byte 123456 of the file, loaded again; and the machine with no print
  running yet.
\<close>

definition example_interrupted :: "int recovery" where
  "example_interrupted =
     load ((snapshot example_plr_config example_fops 2000 example_machine example_snapshot)
             \<lparr>sdpos := 123456\<rparr>)
       (recovery_init example_fops True)"

definition example_restarted :: "int machine" where
  "example_restarted = example_machine\<lparr>IS_SD_PRINTING := False\<rparr>"

text \<open>
  Calls of \<open>outage\<close> after the debounce counter has reached 4, with the voltage low
  and falling: the first call re-enters twice from \<open>idle()\<close> while it retracts and
  lifts, and one more call follows.
\<close>

definition example_outage_calls :: "int outage_call list" where
  "example_outage_calls =
     [Outage_call example_machine 100 90 80
        [Outage_call example_machine 80 70 60 [], Outage_call example_machine 60 50 40 []],
      Outage_call example_machine 40 30 20 []]"

definition example_debounced :: "int recovery" where
  "example_debounced = (recovery_init example_fops True)\<lparr>outage_cnt := 4\<rparr>"

subsection \<open>Notions for the interrupt path\<close>

text \<open>
  Two ways in which a stretch of the interrupt path can relate the state before to the
  state after: nothing of the critical section has happened (no event, no flash
  operation, lock and halt flag as before), or the critical section has run exactly once
  (the system was running and is now halted, the events added are all different, at most
  one flash operation was added).
\<close>

definition untouched :: "'f recovery \<Rightarrow> 'f recovery \<Rightarrow> bool" where
  "untouched r r' =
     (events r' = events r \<and> flash_ops r' = flash_ops r \<and> killed r' = killed r
      \<and> lock r' = lock r)"

definition ran_once :: "'f recovery \<Rightarrow> 'f recovery \<Rightarrow> bool" where
  "ran_once r r' =
     (\<not> killed r \<and> killed r'
      \<and> (\<exists>crit. events r' = events r @ crit \<and> distinct crit \<and> Kill \<in> set crit)
      \<and> length (flash_ops r') \<le> length (flash_ops r) + 1)"
section \<open>Page resolution\<close>

lemmas page_defs =
  PAGE_OFFSET_def PAGE_MAIN_def PAGE_STATUS1_def PAGE_STATUS2_def PAGE_PreLEVEL_def
  PAGE_LEVELING_def PAGE_OUTAGE_RECOVERY_def PAGE_ENG_OUTAGE_RECOVERY_def
  PAGE_CHS_PROBE_PREHEATING_def PAGE_ENG_PROBE_PREHEATING_def PAGE_CHS_HOMING_def
  PAGE_CHS_ABNORMAL_BED_HEATER_def PAGE_CHS_ABNORMAL_BED_NTC_def
  PAGE_CHS_ABNORMAL_HOTEND_HEATER_def PAGE_CHS_ABNORMAL_HOTEND_NTC_def
  PAGE_CHS_ABNORMAL_X_ENDSTOP_def PAGE_CHS_ABNORMAL_Y_ENDSTOP_def
  PAGE_CHS_ABNORMAL_Z_ENDSTOP_def PAGE_CHS_ABNORMAL_LEVELING_SENSOR_def
  PAGE_ENG_HOMING_def PAGE_ENG_ABNORMAL_BED_NTC_def PAGE_ENG_ABNORMAL_HOTEND_NTC_def
  PAGE_CHS_PROBE_PRECHECK_def PAGE_CHS_PROBE_PRECHECK_FAILED_def


lemma chs_unchanged: "page_data_temp CHS p = p"
  by (simp add: page_data_temp_def)

lemma eng_outage: "page_data_temp ENG 171 = 173"
  by (simp add: page_data_temp_def page_defs)

lemma eng_preheating: "page_data_temp ENG 176 = 175"
  by (simp add: page_data_temp_def page_defs)

lemma eng_homing_band:
  assumes "177 \<le> p" and "p \<le> 189"
  shows "page_data_temp ENG p = p + 12"
proof -
  have "p \<noteq> 171" "p \<noteq> 176" using assms by auto
  with assms show ?thesis by (simp add: page_data_temp_def page_defs)
qed

lemma eng_precheck_band:
  assumes "201 \<le> p" and "p \<le> 203"
  shows "page_data_temp ENG p = p + 3"
proof -
  have "p \<noteq> 171" "p \<noteq> 176" "\<not> p \<le> 189"
    using assms by (auto simp add: word_le_nat_alt)
  with assms show ?thesis by (simp add: page_data_temp_def page_defs)
qed

lemma eng_generic:
  assumes "p \<noteq> 171" and "p \<noteq> 176" and "\<not> (177 \<le> p \<and> p \<le> 189)"
    and "\<not> (201 \<le> p \<and> p \<le> 203)"
  shows "page_data_temp ENG p = p + 120"
  using assms by (auto simp add: page_data_temp_def page_defs)

lemma ChangePage_fields:
  "page_index_now (ChangePageOfTFT p s) = page_data_temp (language s) p"
  "page_index_last (ChangePageOfTFT p s) = page_index_now s"
  "page_index_last_2 (ChangePageOfTFT p s) = page_index_last s"
  "tft_out (ChangePageOfTFT p s) = tft_out s @ page_frame (page_data_temp (language s) p)"
  "language (ChangePageOfTFT p s) = language s"
  "printer_state (ChangePageOfTFT p s) = printer_state s"
  "probe_cnt (ChangePageOfTFT p s) = probe_cnt s"
  "injected (ChangePageOfTFT p s) = injected s"
  by (simp_all add: ChangePageOfTFT_def Let_def)

lemma frame_page_id_frame: "frame_page_id (page_frame d) = unat d mod 65536"
proof -
  have a: "unat (ucast (drop_bit 8 d) :: u8) = (unat d div 256) mod 256"
    by (simp add: unsigned_ucast_eq unat_drop_bit_eq take_bit_eq_mod drop_bit_eq_div unat_div)
  have b: "unat (ucast d :: u8) = unat d mod 256"
    by (simp add: unsigned_ucast_eq take_bit_eq_mod)
  have c: "unat d mod (256 * 256) = 256 * (unat d div 256 mod 256) + unat d mod 256"
    by (rule mod_mult2_eq)
  have "frame_page_id (page_frame d) = ((unat d div 256) mod 256) * 256 + unat d mod 256"
    unfolding frame_page_id_def page_frame_def using a b by simp
  also have "\<dots> = unat d mod 65536"
    using c by simp
  finally show ?thesis .
qed

text \<open>
  Claim C4. Under the English language \<open>ChangePageOfTFT\<close> resolves the page through the
  exception table and not by one shift: 171 becomes 173, 176 becomes 175, every page of
  the band 177..189 moves by +12, every page of the band 201..203 by +3, and every other
  page by +120 (in 32-bit arithmetic). Under the Chinese language the page id is kept.
  The resolved id becomes the current page, and the frame sent is the page-change frame
  that carries its low 16 bits.
\<close>

theorem page_resolution_table:
  "(language s = ENG \<longrightarrow>
      page_index_now (ChangePageOfTFT 171 s) = 173
    \<and> page_index_now (ChangePageOfTFT 176 s) = 175
    \<and> (\<forall>p. 177 \<le> p \<and> p \<le> 189 \<longrightarrow> page_index_now (ChangePageOfTFT p s) = p + 12)
    \<and> (\<forall>p. 201 \<le> p \<and> p \<le> 203 \<longrightarrow> page_index_now (ChangePageOfTFT p s) = p + 3)
    \<and> (\<forall>p. p \<noteq> 171 \<and> p \<noteq> 176 \<and> \<not> (177 \<le> p \<and> p \<le> 189) \<and> \<not> (201 \<le> p \<and> p \<le> 203)
           \<longrightarrow> page_index_now (ChangePageOfTFT p s) = p + 120))
   \<and> (language s = CHS \<longrightarrow> (\<forall>p. page_index_now (ChangePageOfTFT p s) = p))
   \<and> (\<forall>p. tft_out (ChangePageOfTFT p s)
              = tft_out s @ page_frame (page_index_now (ChangePageOfTFT p s))
          \<and> frame_page_id (page_frame (page_index_now (ChangePageOfTFT p s)))
              = unat (page_index_now (ChangePageOfTFT p s)) mod 65536)"
  using eng_outage eng_preheating eng_homing_band eng_precheck_band eng_generic
    chs_unchanged frame_page_id_frame
  by (simp add: ChangePage_fields)

theorem page_resolution_table_witness:
  "language (tft_init ENG ON) = ENG
   \<and> (177 :: u32) \<le> 183 \<and> (183 :: u32) \<le> 189
   \<and> page_index_now (ChangePageOfTFT 183 (tft_init ENG ON)) = 195
   \<and> (201 :: u32) \<le> 202 \<and> (202 :: u32) \<le> 203
   \<and> page_index_now (ChangePageOfTFT 202 (tft_init ENG ON)) = 205
   \<and> page_index_now (ChangePageOfTFT 16 (tft_init ENG ON)) = 136
   \<and> language (tft_init CHS ON) = CHS
   \<and> page_index_now (ChangePageOfTFT 183 (tft_init CHS ON)) = 183"
  using page_resolution_table [of "tft_init ENG ON"] page_resolution_table [of "tft_init CHS ON"]
  by (simp add: tft_init_def)

section \<open>Fault pages\<close>

lemma ChangePage_not_same: "ChangePageOfTFT p s \<noteq> s"
proof
  assume "ChangePageOfTFT p s = s"
  then have "tft_out (ChangePageOfTFT p s) = tft_out s" by simp
  then show False by (simp add: ChangePage_fields page_frame_def)
qed

lemma killed_unknown_error:
  "\<not> recognised error_kinds error \<Longrightarrow> PrinterKilled error component s = s"
  by (simp add: recognised_def error_kinds_def PrinterKilled_def)

lemma killed_unknown_component:
  "\<not> recognised components component \<Longrightarrow> PrinterKilled error component s = s"
  by (simp add: recognised_def components_def PrinterKilled_def)

lemma drop_ChangePage:
  "drop (length (tft_out s)) (tft_out (ChangePageOfTFT p s))
     = page_frame (page_data_temp (language s) p)"
  by (simp add: ChangePage_fields)

lemma killed_cases:
  "PrinterKilled error component s = s \<and> PrinterKilled error component t = t
   \<or> (\<exists>p. PrinterKilled error component s = ChangePageOfTFT p s
          \<and> PrinterKilled error component t = ChangePageOfTFT p t)"
proof -
  define Q where "Q = (\<lambda>x y. x = s \<and> y = t
      \<or> (\<exists>p. x = ChangePageOfTFT p s \<and> y = ChangePageOfTFT p t))"
  have keep: "Q s t" by (simp add: Q_def)
  have change: "\<And>p. Q (ChangePageOfTFT p s) (ChangePageOfTFT p t)"
    unfolding Q_def by blast
  have branch: "\<And>k a b c d. Q a b \<Longrightarrow> Q c d \<Longrightarrow> Q (if k then a else c) (if k then b else d)"
    by simp
  have "Q (PrinterKilled error component s) (PrinterKilled error component t)"
    unfolding PrinterKilled_def by (intro branch keep change)
  then show ?thesis by (simp add: Q_def)
qed

lemma killed_frame_by_language:
  assumes "language s = language t"
  shows "drop (length (tft_out s)) (tft_out (PrinterKilled error component s))
       = drop (length (tft_out t)) (tft_out (PrinterKilled error component t))"
  using killed_cases [of error component s t]
proof (elim disjE conjE exE)
  assume "PrinterKilled error component s = s" "PrinterKilled error component t = t"
  then show ?thesis by simp
next
  fix p
  assume "PrinterKilled error component s = ChangePageOfTFT p s"
    "PrinterKilled error component t = ChangePageOfTFT p t"
  then show ?thesis using assms by (simp add: drop_ChangePage)
qed

text \<open>
  Claim C5. \<open>PrinterKilled\<close> selects the fault page from the error kind and the
  component alone: for \<open>("Err: MINTEMP", "Bed")\<close> it always changes to the bed-thermistor
  page (179, shown as 191 in English), for \<open>("Err: MINTEMP", "E1")\<close> to the
  hotend-thermistor page (181, shown as 193 in English); the frame sent depends on
  nothing but the two strings and the language; and when the error kind or the component
  is not one the function recognises (none of its literals begins the string, which is
  how it compares), the panel state is left as it is: no page change and nothing sent.
\<close>

theorem printer_killed_fault_pages:
  "PrinterKilled ''Err: MINTEMP'' ''Bed'' s = ChangePageOfTFT PAGE_CHS_ABNORMAL_BED_NTC s
   \<and> page_index_now (PrinterKilled ''Err: MINTEMP'' ''Bed'' s)
       = (case language s of CHS \<Rightarrow> PAGE_CHS_ABNORMAL_BED_NTC
                           | ENG \<Rightarrow> PAGE_ENG_ABNORMAL_BED_NTC)
   \<and> PrinterKilled ''Err: MINTEMP'' ''E1'' s
       = ChangePageOfTFT PAGE_CHS_ABNORMAL_HOTEND_NTC s
   \<and> page_index_now (PrinterKilled ''Err: MINTEMP'' ''E1'' s)
       = (case language s of CHS \<Rightarrow> PAGE_CHS_ABNORMAL_HOTEND_NTC
                           | ENG \<Rightarrow> PAGE_ENG_ABNORMAL_HOTEND_NTC)
   \<and> PrinterKilled ''Err: MINTEMP'' ''Bed'' s \<noteq> s
   \<and> PrinterKilled ''Err: MINTEMP'' ''E1'' s \<noteq> s
   \<and> (language s = language t \<longrightarrow>
        drop (length (tft_out s)) (tft_out (PrinterKilled error component s))
          = drop (length (tft_out t)) (tft_out (PrinterKilled error component t)))
   \<and> (\<not> recognised error_kinds error \<or> \<not> recognised components component
        \<longrightarrow> PrinterKilled error component s = s)"
proof -
  have bed: "PrinterKilled ''Err: MINTEMP'' ''Bed'' s
               = ChangePageOfTFT PAGE_CHS_ABNORMAL_BED_NTC s"
    by (simp add: PrinterKilled_def)
  have e1: "PrinterKilled ''Err: MINTEMP'' ''E1'' s
              = ChangePageOfTFT PAGE_CHS_ABNORMAL_HOTEND_NTC s"
    by (simp add: PrinterKilled_def)
  have bed_page: "page_data_temp (language s) PAGE_CHS_ABNORMAL_BED_NTC
      = (case language s of CHS \<Rightarrow> PAGE_CHS_ABNORMAL_BED_NTC
                          | ENG \<Rightarrow> PAGE_ENG_ABNORMAL_BED_NTC)"
    by (cases "language s") (simp_all add: page_data_temp_def page_defs)
  have e1_page: "page_data_temp (language s) PAGE_CHS_ABNORMAL_HOTEND_NTC
      = (case language s of CHS \<Rightarrow> PAGE_CHS_ABNORMAL_HOTEND_NTC
                          | ENG \<Rightarrow> PAGE_ENG_ABNORMAL_HOTEND_NTC)"
    by (cases "language s") (simp_all add: page_data_temp_def page_defs)
  have unknown: "\<not> recognised error_kinds error \<or> \<not> recognised components component
      \<longrightarrow> PrinterKilled error component s = s"
    using killed_unknown_error killed_unknown_component by blast
  have frame: "language s = language t \<longrightarrow>
      drop (length (tft_out s)) (tft_out (PrinterKilled error component s))
        = drop (length (tft_out t)) (tft_out (PrinterKilled error component t))"
    using killed_frame_by_language by blast
  have pages: "page_index_now (ChangePageOfTFT PAGE_CHS_ABNORMAL_BED_NTC s)
        = (case language s of CHS \<Rightarrow> PAGE_CHS_ABNORMAL_BED_NTC
                            | ENG \<Rightarrow> PAGE_ENG_ABNORMAL_BED_NTC)"
      "page_index_now (ChangePageOfTFT PAGE_CHS_ABNORMAL_HOTEND_NTC s)
        = (case language s of CHS \<Rightarrow> PAGE_CHS_ABNORMAL_HOTEND_NTC
                            | ENG \<Rightarrow> PAGE_ENG_ABNORMAL_HOTEND_NTC)"
    using bed_page e1_page by (simp_all add: ChangePage_fields)
  show ?thesis
    unfolding bed e1
    using pages ChangePage_not_same unknown frame by blast
qed

theorem printer_killed_fault_pages_witness:
  "\<not> recognised components ''Chamber''
   \<and> PrinterKilled ''Err: MINTEMP'' ''Chamber'' (tft_init ENG ON) = tft_init ENG ON
   \<and> language (tft_init ENG ON) = language (tft_init ENG OFF)
   \<and> page_index_now (PrinterKilled ''Err: MINTEMP'' ''Bed'' (tft_init ENG ON)) = 191
   \<and> page_index_now (PrinterKilled ''Err: MINTEMP'' ''E1'' (tft_init ENG ON)) = 193"
proof -
  have unknown: "\<not> recognised components ''Chamber''"
    by (simp add: recognised_def components_def)
  have lang: "language (tft_init ENG ON) = ENG" "language (tft_init ENG OFF) = ENG"
    by (simp_all add: tft_init_def)
  note inst = printer_killed_fault_pages
      [where s = "tft_init ENG ON" and t = "tft_init ENG OFF"
         and error = "''Err: MINTEMP''" and component = "''Chamber''"]
  note bed = inst [THEN conjunct2, THEN conjunct1]
  note e1 = inst [THEN conjunct2, THEN conjunct2, THEN conjunct2, THEN conjunct1]
  note same = inst [THEN conjunct2, THEN conjunct2, THEN conjunct2, THEN conjunct2,
      THEN conjunct2, THEN conjunct2, THEN conjunct2]
  from same unknown
  have "PrinterKilled ''Err: MINTEMP'' ''Chamber'' (tft_init ENG ON) = tft_init ENG ON"
    by (rule mp [OF _ disjI2])
  moreover from bed
  have "page_index_now (PrinterKilled ''Err: MINTEMP'' ''Bed'' (tft_init ENG ON)) = 191"
    by (simp add: lang page_defs)
  moreover from e1
  have "page_index_now (PrinterKilled ''Err: MINTEMP'' ''E1'' (tft_init ENG ON)) = 193"
    by (simp add: lang page_defs)
  ultimately show ?thesis
    using unknown lang by simp
qed

section \<open>Probing sub-protocol\<close>












section \<open>Frame decoder\<close>















section \<open>Validity markers\<close>

lemma u8_succ_zero: "(h :: u8) + 1 = 0 \<longleftrightarrow> h = 255"
proof -
  have "(- 1 :: u8) = 255" by simp
  moreover have "h + 1 = 0 \<longleftrightarrow> h = - 1" by (simp add: eq_neg_iff_add_eq_0)
  ultimately show ?thesis by (simp only:)
qed

lemma next_head_eq: "next_head h = (if h = 255 then 1 else h + 1)"
  by (simp add: next_head_def u8_succ_zero)

lemma next_head_nonzero: "next_head h \<noteq> 0"
  by (simp add: next_head_eq u8_succ_zero)

lemma save_steps_markers:
  "valid_head (save_markers i) = next_head (valid_head i)"
  "valid_foot (save_markers i) = next_head (valid_head i)"
  "valid_head (save_machine_state F zr M i) = valid_head i"
  "valid_foot (save_machine_state F zr M i) = valid_foot i"
  "valid_head (save_workspace C M i) = valid_head i"
  "valid_foot (save_workspace C M i) = valid_foot i"
  "valid_head (save_extruders C M i) = valid_head i"
  "valid_foot (save_extruders C M i) = valid_foot i"
  "valid_head (save_temperatures C M i) = valid_head i"
  "valid_foot (save_temperatures C M i) = valid_foot i"
  "valid_head (save_fans_leveling C F M i) = valid_head i"
  "valid_foot (save_fans_leveling C F M i) = valid_foot i"
  "valid_head (save_mix_retract C M i) = valid_head i"
  "valid_foot (save_mix_retract C M i) = valid_foot i"
  "valid_head (save_job C M i) = valid_head i"
  "valid_foot (save_job C M i) = valid_foot i"
  by (simp_all add: save_markers_def save_machine_state_def save_workspace_def
      save_extruders_def save_temperatures_def save_fans_leveling_def save_mix_retract_def
      save_job_def Let_def)

lemma save_steps_position:
  "current_position (save_machine_state F zr M i) = current_position_now M"
  "current_position (save_workspace C M i) = current_position i"
  "current_position (save_extruders C M i) = current_position i"
  "current_position (save_temperatures C M i) = current_position i"
  "current_position (save_fans_leveling C F M i) = current_position i"
  "current_position (save_mix_retract C M i) = current_position i"
  "current_position (save_job C M i) = current_position i"
  by (simp_all add: save_machine_state_def save_workspace_def
      save_extruders_def save_temperatures_def save_fans_leveling_def save_mix_retract_def
      save_job_def Let_def)

lemma snapshot_markers:
  "valid_head (snapshot C F zr M i) = next_head (valid_head i)"
  "valid_foot (snapshot C F zr M i) = next_head (valid_head i)"
  by (simp_all add: snapshot_def save_steps_markers)

lemma snapshot_position:
  "current_position (snapshot C F zr M i) = current_position_now M"
  by (simp add: snapshot_def save_steps_position)

lemma save_accepted:
  assumes "save_due C F force M r"
  shows "info (save C F force zr M r) = snapshot C F zr M (info r)"
    and "flash_ops (save C F force zr M r)
           = flash_ops r @ [FLASH_If_Write (snapshot C F zr M (info r))]"
    and "next_save_ms (save C F force zr M r)
           = (if 0 < SAVE_INFO_INTERVAL_MS C then ms M + SAVE_INFO_INTERVAL_MS C
              else next_save_ms r)"
  using assms by (simp_all add: save_def write_info_def Let_def)

lemma invalid_markers:
  assumes "valid_head stored \<noteq> valid_foot stored \<or> valid_head stored = 0
             \<or> valid_foot stored = 0"
  shows "\<not> valid (load stored r)"
    and "valid_head stored \<noteq> 0xFF \<or> valid_foot stored \<noteq> 0xFF"
  using assms by (auto simp add: valid_def load_def)

lemma check_invalid:
  assumes "valid_head stored \<noteq> valid_foot stored \<or> valid_head stored = 0
             \<or> valid_foot stored = 0"
  shows "queue_injected (check F M stored r) = queue_injected r"
    and "card_isMounted M \<Longrightarrow> info (check F M stored r) = zero_info F"
    and "card_isMounted M \<Longrightarrow>
           flash_ops (check F M stored r) = flash_ops r @ [FLASH_If_Erase]"
proof -
  note inv = invalid_markers(1) [OF assms, of r] invalid_markers(2) [OF assms]
  have unmounted: "\<not> card_isMounted M \<Longrightarrow> check F M stored r = r"
    by (simp add: check_def)
  have mounted: "card_isMounted M \<Longrightarrow> check F M stored r = purge F (load stored r)"
    using inv(1) by (simp add: check_def cancel_def Let_def)
  have purged: "purge F (load stored r)
      = (load stored r)\<lparr>flash_ops := flash_ops r @ [FLASH_If_Erase], info := zero_info F\<rparr>"
    using inv(2) by (auto simp add: purge_def load_def Let_def)
  show "queue_injected (check F M stored r) = queue_injected r"
    using unmounted mounted purged by (cases "card_isMounted M") (simp_all add: load_def)
  show "card_isMounted M \<Longrightarrow> info (check F M stored r) = zero_info F"
    using mounted purged by simp
  show "card_isMounted M \<Longrightarrow>
      flash_ops (check F M stored r) = flash_ops r @ [FLASH_If_Erase]"
    using mounted purged by simp
qed

text \<open>
  Claim C1. Every save that is accepted (forced, or due by time or by Z) first moves
  the head marker on by one, wrapping from 255 to 1 so that it is never zero, then sets
  the foot marker to the head marker, and the record it writes to the flash carries these
  markers. A stored record whose markers differ, or of which one is zero, is rejected by
  \<open>check\<close> whatever else it holds: no command is injected, and once the record has been
  loaded (the card is mounted) it is discarded, the flash page erased and \<open>info\<close> zeroed.
  \<open>valid\<close> and \<open>cancel\<close> are as the specification describes them.
\<close>

theorem torn_write_detectable:
  "(save_due C F force M r \<longrightarrow>
      valid_head (info (save C F force zr M r))
        = (if valid_head (info r) = 255 then 1 else valid_head (info r) + 1)
    \<and> valid_head (info (save C F force zr M r)) \<noteq> 0
    \<and> valid_foot (info (save C F force zr M r)) = valid_head (info (save C F force zr M r))
    \<and> flash_ops (save C F force zr M r)
        = flash_ops r @ [FLASH_If_Write (info (save C F force zr M r))])
   \<and> (valid_head stored \<noteq> valid_foot stored \<or> valid_head stored = 0 \<or> valid_foot stored = 0
        \<longrightarrow>
          queue_injected (check F M' stored r) = queue_injected r
        \<and> (card_isMounted M' \<longrightarrow>
              info (check F M' stored r) = zero_info F
            \<and> flash_ops (check F M' stored r) = flash_ops r @ [FLASH_If_Erase]))"
proof (intro conjI impI)
  assume due: "save_due C F force M r"
  show "valid_head (info (save C F force zr M r))
      = (if valid_head (info r) = 255 then 1 else valid_head (info r) + 1)"
    using save_accepted(1) [OF due] by (simp add: snapshot_markers next_head_eq)
  show "valid_head (info (save C F force zr M r)) \<noteq> 0"
    using save_accepted(1) [OF due] by (simp add: snapshot_markers next_head_nonzero)
  show "valid_foot (info (save C F force zr M r))
      = valid_head (info (save C F force zr M r))"
    using save_accepted(1) [OF due] by (simp add: snapshot_markers)
  show "flash_ops (save C F force zr M r)
      = flash_ops r @ [FLASH_If_Write (info (save C F force zr M r))]"
    using save_accepted(1,2) [OF due] by simp
next
  assume inv: "valid_head stored \<noteq> valid_foot stored \<or> valid_head stored = 0
      \<or> valid_foot stored = 0"
  show "queue_injected (check F M' stored r) = queue_injected r"
    by (rule check_invalid(1) [OF inv])
  assume "card_isMounted M'"
  then show "info (check F M' stored r) = zero_info F"
      "flash_ops (check F M' stored r) = flash_ops r @ [FLASH_If_Erase]"
    by (rule check_invalid(2,3) [OF inv])+
qed

theorem torn_write_detectable_witness:
  "save_due example_plr_config example_fops True example_machine
     (recovery_init example_fops True)
   \<and> valid_head (info (save example_plr_config example_fops True 0 example_machine
                           (recovery_init example_fops True))) = 1
   \<and> valid_foot (info (save example_plr_config example_fops True 0 example_machine
                           (recovery_init example_fops True))) = 1
   \<and> valid_head (example_snapshot\<lparr>valid_foot := 4\<rparr>)
       \<noteq> valid_foot (example_snapshot\<lparr>valid_foot := 4\<rparr>)
   \<and> card_isMounted example_machine
   \<and> queue_injected (check example_fops example_machine
                         (example_snapshot\<lparr>valid_foot := 4\<rparr>)
                         (recovery_init example_fops True)) = []
   \<and> info (check example_fops example_machine (example_snapshot\<lparr>valid_foot := 4\<rparr>)
             (recovery_init example_fops True)) = zero_info example_fops"
proof -
  let ?C = example_plr_config and ?F = example_fops and ?M = example_machine
  let ?r = "recovery_init example_fops True"
  let ?torn = "example_snapshot\<lparr>valid_foot := 4\<rparr>"
  have due: "save_due ?C ?F True ?M ?r"
    by (simp add: save_due_def)
  have torn: "valid_head ?torn \<noteq> valid_foot ?torn"
    by (simp add: example_snapshot_def)
  have mounted: "card_isMounted ?M"
    by (simp add: example_machine_def)
  have start: "valid_head (info ?r) = 0" "queue_injected ?r = []"
    by (simp_all add: recovery_init_def zero_info_def)
  note inst = torn_write_detectable
      [where C = ?C and F = ?F and force = True and M = ?M and r = ?r and zr = 0
         and stored = ?torn and M' = ?M]
  from inst due have saved:
    "valid_head (info (save ?C ?F True 0 ?M ?r))
       = (if valid_head (info ?r) = 255 then 1 else valid_head (info ?r) + 1)"
    "valid_foot (info (save ?C ?F True 0 ?M ?r)) = valid_head (info (save ?C ?F True 0 ?M ?r))"
    by blast+
  from inst torn mounted have rejected:
    "queue_injected (check ?F ?M ?torn ?r) = queue_injected ?r"
    "info (check ?F ?M ?torn ?r) = zero_info ?F"
    by blast+
  show ?thesis
    using due torn mounted saved rejected start by simp
qed

section \<open>Save trigger policy\<close>

lemma sint_sub_negative:
  fixes d i :: u32
  assumes "unat d < unat i" and "unat i < 2 ^ 31"
  shows "sint (d - i) < 0"
proof -
  have "d < i" using assms(1) by (simp only: word_less_nat_alt)
  then have lt1: "uint d < uint i" by (simp only: word_less_alt)
  have "int (unat i) < int (2 ^ 31)"
    using assms(2) by (simp only: of_nat_less_iff)
  then have lt2: "uint i < 2 ^ 31"
    by (simp only: uint_nat of_nat_power of_nat_numeral)
  have "uint (d - i) = uint d - uint i + 2 ^ 32"
    using lt1 by (simp add: uint_sub_if')
  then have eq: "uint (d - i) = uint d - uint i + 4294967296" by simp
  have ge: "0 \<le> uint d" by (rule uint_ge_0)
  from lt2 have lt3: "uint i < 2147483648" by simp
  have "2147483648 \<le> uint (d - i)" "uint (d - i) < 4294967296"
    using eq lt1 lt3 ge by linarith+
  then have range: "2 ^ 31 \<le> uint (d - i)" "uint (d - i) < 2 ^ 32"
    by simp_all
  have "sint (d - i) = signed_take_bit 31 (uint (d - i))"
    by (simp add: sint_uint)
  also have "\<dots> \<le> uint (d - i) - 2 ^ Suc 31"
    using range(1) by (rule signed_take_bit_int_less_eq)
  finally show ?thesis
    using range(2) by simp
qed

lemma not_elapsed:
  fixes t d i :: u32
  assumes "unat d < unat i" and "unat i < 2 ^ 31"
  shows "\<not> ELAPSED (t + d) (t + i)"
  using sint_sub_negative [OF assms] by (simp add: ELAPSED_def)

text \<open>
  Claim C6. A call \<open>save(false)\<close> is accepted; a second \<open>save(false)\<close> follows at once:
  where the build has a save interval, less than the interval (itself below \<open>2^31\<close> ms)
  has passed since the first call, and the current Z is not more than
  \<open>POWER_LOSS_MIN_Z_CHANGE\<close> above the Z just saved. Then the second call changes
  nothing: no write to the flash, and \<open>info\<close> with its markers as the first call left it.
\<close>

theorem save_twice_is_noop:
  assumes "save_due C F False M1 r"
    and "r1 = save C F False zr1 M1 r"
    and "0 < SAVE_INFO_INTERVAL_MS C \<longrightarrow>
           ms M2 = ms M1 + d \<and> unat d < unat (SAVE_INFO_INTERVAL_MS C)
           \<and> unat (SAVE_INFO_INTERVAL_MS C) < 2 ^ 31"
    and "\<not> z_changed F (pos_z (current_position_now M2)) (pos_z (current_position_now M1))"
  shows "save C F False zr2 M2 r1 = r1
       \<and> flash_ops (save C F False zr2 M2 r1) = flash_ops r1
       \<and> info (save C F False zr2 M2 r1) = info r1"
proof -
  have pos: "current_position (info r1) = current_position_now M1"
    using save_accepted(1) [OF assms(1)] assms(2) by (simp add: snapshot_position)
  have time: "0 < SAVE_INFO_INTERVAL_MS C \<Longrightarrow> \<not> ELAPSED (ms M2) (next_save_ms r1)"
  proof -
    assume int: "0 < SAVE_INFO_INTERVAL_MS C"
    then have "next_save_ms r1 = ms M1 + SAVE_INFO_INTERVAL_MS C"
      using save_accepted(3) [OF assms(1)] assms(2) by simp
    moreover have "\<not> ELAPSED (ms M1 + d) (ms M1 + SAVE_INFO_INTERVAL_MS C)"
      using assms(3) int by (simp add: not_elapsed)
    ultimately show ?thesis using assms(3) int by simp
  qed
  have "\<not> save_due C F False M2 r1"
    using time assms(4) pos by (auto simp add: save_due_def)
  then have "save C F False zr2 M2 r1 = r1" by (simp add: save_def)
  then show ?thesis by simp
qed

theorem save_twice_is_noop_witness:
  "save_due example_plr_config example_fops False example_machine
     (recovery_init example_fops True)
   \<and> unat (10 :: u32) < unat (SAVE_INFO_INTERVAL_MS example_plr_config)
   \<and> \<not> z_changed example_fops
         (pos_z (current_position_now (example_machine\<lparr>ms := 60010\<rparr>)))
         (pos_z (current_position_now example_machine))
   \<and> save example_plr_config example_fops False 0 (example_machine\<lparr>ms := 60010\<rparr>)
         (save example_plr_config example_fops False 0 example_machine
            (recovery_init example_fops True))
       = save example_plr_config example_fops False 0 example_machine
           (recovery_init example_fops True)
   \<and> flash_ops (save example_plr_config example_fops False 0 example_machine
                     (recovery_init example_fops True)) \<noteq> []"
proof -
  let ?C = example_plr_config and ?F = example_fops and ?M = example_machine
  let ?r = "recovery_init example_fops True"
  have due: "save_due ?C ?F False ?M ?r"
    by (simp add: save_due_def example_plr_config_def example_fops_def example_machine_def
        recovery_init_def zero_info_def)
  have time: "0 < SAVE_INFO_INTERVAL_MS ?C \<longrightarrow>
      ms (?M\<lparr>ms := 60010\<rparr>) = ms ?M + 10 \<and> unat (10 :: u32) < unat (SAVE_INFO_INTERVAL_MS ?C)
      \<and> unat (SAVE_INFO_INTERVAL_MS ?C) < 2 ^ 31"
    by (simp add: example_plr_config_def example_machine_def)
  have z: "\<not> z_changed ?F (pos_z (current_position_now (?M\<lparr>ms := 60010\<rparr>)))
      (pos_z (current_position_now ?M))"
    by (simp add: example_fops_def)
  have written: "flash_ops (save ?C ?F False 0 ?M ?r) \<noteq> []"
    using save_accepted(2) [OF due] by simp
  have short: "unat (10 :: u32) < unat (SAVE_INFO_INTERVAL_MS ?C)"
    by (simp add: example_plr_config_def)
  show ?thesis
    using save_twice_is_noop [OF due refl time z, of 0 0] due short z written
    by simp
qed

section \<open>Power-loss interrupt path\<close>

text \<open>
  Claim C10. While recovery is disabled a call of \<open>outage\<close> returns at once and leaves
  the whole state as it was: the voltage is not read, the debounce counter and the last
  reading keep their values, nothing is saved, no heater or stepper is switched and
  \<open>kill\<close> is not called, whatever the machine does (an SD print may be running) and
  whatever the voltage would have been.
\<close>

declare outage.simps [simp del] outage_inner.simps [simp del]
  retract_and_lift.simps [simp del]

theorem outage_disabled_returns:
  "\<not> enabled r \<Longrightarrow> outage C F call r = r"
  by (cases call) (simp add: outage.simps)

theorem outage_disabled_returns_witness:
  "\<not> enabled (recovery_init example_fops False)
   \<and> IS_SD_PRINTING example_machine
   \<and> outage example_plr_config example_fops (Outage_call example_machine 100 90 80 [])
        ((recovery_init example_fops False)\<lparr>outage_cnt := 4\<rparr>)
       = (recovery_init example_fops False)\<lparr>outage_cnt := 4\<rparr>"
proof -
  have off: "\<not> enabled ((recovery_init example_fops False)\<lparr>outage_cnt := 4\<rparr>)"
    by (simp add: recovery_init_def)
  show ?thesis
    using outage_disabled_returns [OF off] off
    by (simp add: example_machine_def)
qed

lemma count_read_fields:
  "events (count_read r) = events r" "flash_ops (count_read r) = flash_ops r"
  "killed (count_read r) = killed r" "lock (count_read r) = lock r"
  "enabled (count_read r) = enabled r" "outage_cnt (count_read r) = outage_cnt r"
  by (simp_all add: count_read_def)

lemma sample_fields:
  "events (sample_low v2 v3 r) = events r" "flash_ops (sample_low v2 v3 r) = flash_ops r"
  "killed (sample_low v2 v3 r) = killed r" "lock (sample_low v2 v3 r) = lock r"
  "events (sample_high v3 r) = events r" "flash_ops (sample_high v3 r) = flash_ops r"
  "killed (sample_high v3 r) = killed r" "lock (sample_high v3 r) = lock r"
  by (simp_all add: sample_low_def sample_high_def count_read_def Let_def)

lemma save_fields:
  "events (save C F force zr M r) = events r"
  "killed (save C F force zr M r) = killed r"
  "lock (save C F force zr M r) = lock r"
  "length (flash_ops (save C F force zr M r)) \<le> length (flash_ops r) + 1"
  by (simp_all add: save_def write_info_def Let_def)

lemma critical_head_fields:
  "events (critical_head C F M r)
     = events r @ [Heater_pins_off, ExtUI_onPowerLoss, Stepper_pins_off, Disable_all_heaters]"
  "killed (critical_head C F M r) = killed r"
  "lock (critical_head C F M r) = (BACKUP_POWER_SUPPLY C \<or> lock r)"
  by (simp_all add: critical_head_def Let_def save_fields)

lemma critical_head_flash:
  "length (flash_ops (critical_head C F M r)) \<le> length (flash_ops r) + 1"
proof -
  let ?r1 = "if BACKUP_POWER_SUPPLY C then r\<lparr>lock := True\<rparr> else r"
  let ?r2 = "?r1\<lparr>events := events ?r1
      @ [Heater_pins_off, ExtUI_onPowerLoss, Stepper_pins_off]\<rparr>"
  let ?r3 = "if IS_SD_PRINTING M then save C F True (outage_zraise C F M) M ?r2 else ?r2"
  have "flash_ops ?r2 = flash_ops r" by simp
  moreover have "length (flash_ops ?r3) \<le> length (flash_ops ?r2) + 1"
    using save_fields(4) [of C F True "outage_zraise C F M" M ?r2] by simp
  moreover have "flash_ops (critical_head C F M r) = flash_ops ?r3"
    by (simp add: critical_head_def Let_def)
  ultimately show ?thesis by simp
qed

lemma quickstop_fields:
  "events (quickstop_stepper r) = events r @ [Quickstop_stepper]"
  "killed (quickstop_stepper r) = killed r" "lock (quickstop_stepper r) = lock r"
  "flash_ops (quickstop_stepper r) = flash_ops r"
  by (simp_all add: quickstop_stepper_def)

lemma kill_fields:
  "events (kill r) = events r @ [Kill]" "killed (kill r)" "lock (kill r) = lock r"
  "flash_ops (kill r) = flash_ops r"
  by (simp_all add: kill_def)

text \<open>What \<open>retract_and_lift\<close> adds to the events before it waits.\<close>

lemma lift_commands_fields:
  "\<exists>lift. events (lift_commands C F zr r) = events r @ lift \<and> distinct lift
          \<and> set lift \<subseteq> {Set_relative_mode, Planner_synchronize} \<union> range Gcode"
  "killed (lift_commands C F zr r) = killed r" "lock (lift_commands C F zr r) = lock r"
  "flash_ops (lift_commands C F zr r) = flash_ops r"
  by (auto simp add: lift_commands_def)

lemma untouched_refl: "untouched r r"
  by (simp add: untouched_def)

lemma untouched_trans: "untouched r r1 \<Longrightarrow> untouched r1 r2 \<Longrightarrow> untouched r r2"
  by (simp add: untouched_def)

lemma untouched_ran_once: "untouched r r1 \<Longrightarrow> ran_once r1 r2 \<Longrightarrow> ran_once r r2"
  by (simp add: untouched_def ran_once_def)

text \<open>
  The invariant of the four functions. A call of \<open>outage\<close>, and a sequence of calls,
  does nothing once the system is halted, leaves the critical section alone while the
  lock is held, and otherwise either leaves it alone or runs it once. \<open>_outage\<close>, on a
  running system, returns at once while the lock is held and otherwise runs the
  section once. \<open>retract_and_lift\<close>, under the lock, only adds its own commands.
\<close>

lemma outage_path_invariant:
  fixes r :: "'f recovery"
  shows "(killed r \<longrightarrow> outage C F call r = r)
       \<and> (BACKUP_POWER_SUPPLY C \<and> lock r \<longrightarrow> untouched r (outage C F call r))
       \<and> (untouched r (outage C F call r) \<or> ran_once r (outage C F call r))"
    and "\<not> killed r \<longrightarrow>
           (BACKUP_POWER_SUPPLY C \<and> lock r \<longrightarrow> outage_inner C F M nested r = r)
         \<and> (\<not> (BACKUP_POWER_SUPPLY C \<and> lock r) \<longrightarrow> ran_once r (outage_inner C F M nested r))"
    and "BACKUP_POWER_SUPPLY C \<and> lock r \<and> \<not> killed r \<longrightarrow>
           (\<exists>lift. events (retract_and_lift C F zr nested r) = events r @ lift
                  \<and> distinct lift
                  \<and> set lift \<subseteq> {Set_relative_mode, Planner_synchronize} \<union> range Gcode)
         \<and> flash_ops (retract_and_lift C F zr nested r) = flash_ops r
         \<and> \<not> killed (retract_and_lift C F zr nested r)
         \<and> lock (retract_and_lift C F zr nested r)"
    and "(killed r \<longrightarrow> idle_calls C F calls r = r)
       \<and> (BACKUP_POWER_SUPPLY C \<and> lock r \<longrightarrow> untouched r (idle_calls C F calls r))
       \<and> (untouched r (idle_calls C F calls r) \<or> ran_once r (idle_calls C F calls r))"
proof (induction C F call r and C F M nested r and C F zr nested r and C F calls r
    rule: outage_outage_inner_retract_and_lift_idle_calls.induct)
  case (1 C F M v1 v2 v3 nested r)
  show ?case
  proof (cases "killed r \<or> \<not> enabled r")
    case True
    then have "outage C F (Outage_call M v1 v2 v3 nested) r = r"
      by (auto simp add: outage.simps)
    then show ?thesis by (simp add: untouched_refl)
  next
    case run: False
    show ?thesis
    proof (cases "v1 < 2200")
      case high: False
      with run have "outage C F (Outage_call M v1 v2 v3 nested) r
          = sample_high v3 (count_read r)" by (simp add: outage.simps)
      then have "untouched r (outage C F (Outage_call M v1 v2 v3 nested) r)"
        by (simp add: untouched_def sample_fields count_read_fields)
      with run show ?thesis by simp
    next
      case low: True
      show ?thesis
      proof (cases "4 \<le> outage_cnt r")
        case False
        with run low have "outage C F (Outage_call M v1 v2 v3 nested) r
            = sample_low v2 v3 (count_read r)"
          by (simp add: outage.simps count_read_fields)
        then have "untouched r (outage C F (Outage_call M v1 v2 v3 nested) r)"
          by (simp add: untouched_def sample_fields count_read_fields)
        with run show ?thesis by simp
      next
        case trip: True
        let ?r1 = "count_read r"
        let ?r2 = "outage_inner C F M nested ?r1"
        have out: "outage C F (Outage_call M v1 v2 v3 nested) r
            = (if killed ?r2 then ?r2 else sample_low v2 v3 ?r2)"
          using run low trip by (simp add: outage.simps Let_def)
        have inner: "(BACKUP_POWER_SUPPLY C \<and> lock ?r1 \<longrightarrow> ?r2 = ?r1)
            \<and> (\<not> (BACKUP_POWER_SUPPLY C \<and> lock ?r1) \<longrightarrow> ran_once ?r1 ?r2)"
          using "1.IH" run low trip by (simp add: count_read_fields)
        have r1: "untouched r ?r1"
          by (simp add: untouched_def count_read_fields)
        show ?thesis
        proof (cases "BACKUP_POWER_SUPPLY C \<and> lock r")
          case True
          with inner have "?r2 = ?r1" by (simp add: count_read_fields)
          with out run have "outage C F (Outage_call M v1 v2 v3 nested) r
              = sample_low v2 v3 ?r1" by (simp add: count_read_fields)
          then have "untouched r (outage C F (Outage_call M v1 v2 v3 nested) r)"
            by (simp add: untouched_def sample_fields count_read_fields)
          with run show ?thesis by simp
        next
          case False
          with inner have once: "ran_once ?r1 ?r2" by (simp add: count_read_fields)
          then have "killed ?r2" by (simp add: ran_once_def)
          with out have "outage C F (Outage_call M v1 v2 v3 nested) r = ?r2" by simp
          moreover have "ran_once r ?r2" using r1 once by (rule untouched_ran_once)
          ultimately show ?thesis using run False by auto
        qed
      qed
    qed
  qed
next
  case (2 C F M nested r)
  show ?case
  proof (intro impI conjI)
    assume "\<not> killed r" "BACKUP_POWER_SUPPLY C \<and> lock r"
    then show "outage_inner C F M nested r = r" by (simp add: outage_inner.simps)
  next
    assume alive: "\<not> killed r" and free: "\<not> (BACKUP_POWER_SUPPLY C \<and> lock r)"
    let ?h = "critical_head C F M r"
    show "ran_once r (outage_inner C F M nested r)"
    proof (cases "BACKUP_POWER_SUPPLY C")
      case False
      with free have "outage_inner C F M nested r = kill ?h"
        by (simp add: outage_inner.simps)
      then show ?thesis
        using alive critical_head_fields [of C F M r] critical_head_flash [of C F M r]
        by (simp add: ran_once_def kill_fields)
    next
      case True
      let ?q = "quickstop_stepper ?h"
      let ?l = "retract_and_lift C F (outage_zraise C F M) nested ?q"
      have out: "outage_inner C F M nested r = kill ?l"
        using True free by (simp add: outage_inner.simps)
      have q: "BACKUP_POWER_SUPPLY C \<and> lock ?q \<and> \<not> killed ?q"
        using True alive by (simp add: quickstop_fields critical_head_fields)
      from "2.IH" True free q
      obtain lift where lift: "events ?l = events ?q @ lift" "distinct lift"
          "set lift \<subseteq> {Set_relative_mode, Planner_synchronize} \<union> range Gcode"
          "flash_ops ?l = flash_ops ?q" "\<not> killed ?l"
        by auto
      have ev: "events (kill ?l)
          = events r @ ([Heater_pins_off, ExtUI_onPowerLoss, Stepper_pins_off,
                          Disable_all_heaters, Quickstop_stepper] @ lift @ [Kill])"
        using lift(1) by (simp add: kill_fields quickstop_fields critical_head_fields)
      have dist: "distinct ([Heater_pins_off, ExtUI_onPowerLoss, Stepper_pins_off,
                          Disable_all_heaters, Quickstop_stepper] @ lift @ [Kill])"
        using lift(2,3) by auto
      have fl: "length (flash_ops (kill ?l)) \<le> length (flash_ops r) + 1"
        using lift(4) critical_head_flash [of C F M r]
        by (simp add: kill_fields quickstop_fields)
      show ?thesis
        unfolding out ran_once_def
        using alive ev dist fl by (auto simp add: kill_fields)
    qed
  qed
next
  case (3 C F zr nested r)
  show ?case
  proof (intro impI)
    assume locked: "BACKUP_POWER_SUPPLY C \<and> lock r \<and> \<not> killed r"
    show "(\<exists>lift. events (retract_and_lift C F zr nested r) = events r @ lift
                  \<and> distinct lift
                  \<and> set lift \<subseteq> {Set_relative_mode, Planner_synchronize} \<union> range Gcode)
         \<and> flash_ops (retract_and_lift C F zr nested r) = flash_ops r
         \<and> \<not> killed (retract_and_lift C F zr nested r)
         \<and> lock (retract_and_lift C F zr nested r)"
    proof (cases "retract_len C \<noteq> 0 \<or> POWER_LOSS_ZRAISE_set C")
      case False
      then have "retract_and_lift C F zr nested r = r"
        by (simp add: retract_and_lift.simps)
      with locked show ?thesis by simp
    next
      case True
      let ?c = "lift_commands C F zr r"
      have out: "retract_and_lift C F zr nested r = idle_calls C F nested ?c"
        using True by (simp add: retract_and_lift.simps)
      have "BACKUP_POWER_SUPPLY C \<and> lock ?c"
        using locked by (simp add: lift_commands_fields)
      with "3.IH" True have "untouched ?c (idle_calls C F nested ?c)" by simp
      then show ?thesis
        unfolding out untouched_def
        using lift_commands_fields [of C F zr r] locked by auto
    qed
  qed
next
  case (4 C F r)
  show ?case by (simp add: untouched_refl)
next
  case (5 C F c cs r)
  let ?r1 = "outage C F c r"
  let ?r2 = "idle_calls C F cs ?r1"
  have out: "idle_calls C F (c # cs) r = ?r2" by simp
  note first = "5.IH"(1)
  note rest = "5.IH"(2)
  have a: "killed r \<longrightarrow> ?r2 = r"
    using first rest by auto
  have b: "BACKUP_POWER_SUPPLY C \<and> lock r \<longrightarrow> untouched r ?r2"
  proof
    assume bl: "BACKUP_POWER_SUPPLY C \<and> lock r"
    with first have u1: "untouched r ?r1" by simp
    then have "lock ?r1" using bl by (simp add: untouched_def)
    with rest bl have "untouched ?r1 ?r2" by simp
    with u1 show "untouched r ?r2" by (rule untouched_trans)
  qed
  have c: "untouched r ?r2 \<or> ran_once r ?r2"
  proof -
    from first have "untouched r ?r1 \<or> ran_once r ?r1" by simp
    then show ?thesis
    proof
      assume u1: "untouched r ?r1"
      from rest have "untouched ?r1 ?r2 \<or> ran_once ?r1 ?r2" by simp
      then show ?thesis
        using u1 untouched_trans untouched_ran_once by blast
    next
      assume o1: "ran_once r ?r1"
      then have "killed ?r1" by (simp add: ran_once_def)
      with rest have "?r2 = ?r1" by simp
      with o1 show ?thesis by simp
    qed
  qed
  show ?case unfolding out using a b c by blast
qed

lemma count_distinct: "distinct xs \<Longrightarrow> count_list xs x \<le> 1"
  by (induction xs) auto

text \<open>
  Claim C8. However many times \<open>outage\<close> is called, one call after the other and each
  with any calls re-entering from \<open>idle()\<close> while \<open>retract_and_lift\<close> waits, and from
  whatever state: every event of the critical section of \<open>_outage\<close> (the heater pins,
  the notification of the UI, the stepper pins, disabling the heaters, the stepper stop,
  the retract and the Z raise, \<open>kill\<close>) is added at most once and at most one save
  reaches the flash. With a backup supply the lock alone keeps every call out of the
  section once it is taken; without one the section has no wait to re-enter from, and
  \<open>kill\<close> halts the system.
\<close>

theorem critical_section_at_most_once:
  "count_list (events (idle_calls C F calls r)) ev \<le> count_list (events r) ev + 1
   \<and> length (flash_ops (idle_calls C F calls r)) \<le> length (flash_ops r) + 1
   \<and> (BACKUP_POWER_SUPPLY C \<and> lock r \<longrightarrow>
         events (idle_calls C F calls r) = events r
       \<and> flash_ops (idle_calls C F calls r) = flash_ops r
       \<and> (\<not> killed r \<longrightarrow> outage_inner C F M nested r = r))"
proof -
  let ?r' = "idle_calls C F calls r"
  note inv = outage_path_invariant(4) [of r C F calls]
  have locked: "BACKUP_POWER_SUPPLY C \<and> lock r \<longrightarrow>
      events ?r' = events r \<and> flash_ops ?r' = flash_ops r
      \<and> (\<not> killed r \<longrightarrow> outage_inner C F M nested r = r)"
    using inv outage_path_invariant(2) [of r C F M nested] by (simp add: untouched_def)
  from inv have "untouched r ?r' \<or> ran_once r ?r'" by simp
  then have "count_list (events ?r') ev \<le> count_list (events r) ev + 1
      \<and> length (flash_ops ?r') \<le> length (flash_ops r) + 1"
  proof
    assume "untouched r ?r'"
    then show ?thesis by (simp add: untouched_def)
  next
    assume "ran_once r ?r'"
    then obtain crit where "events ?r' = events r @ crit" "distinct crit"
        "length (flash_ops ?r') \<le> length (flash_ops r) + 1"
      by (auto simp add: ran_once_def)
    then show ?thesis using count_distinct [of crit ev] by simp
  qed
  with locked show ?thesis by simp
qed

lemma example_outage_run:
  "count_list (events (idle_calls example_plr_config example_fops example_outage_calls
                         example_debounced)) Kill = 1
   \<and> count_list (events (idle_calls example_plr_config example_fops example_outage_calls
                         example_debounced)) Disable_all_heaters = 1
   \<and> length (flash_ops (idle_calls example_plr_config example_fops example_outage_calls
                           example_debounced)) = 1
   \<and> adc_reads (idle_calls example_plr_config example_fops example_outage_calls
                   example_debounced) = 7
   \<and> lock (idle_calls example_plr_config example_fops example_outage_calls
              example_debounced)
   \<and> events example_debounced = []"
  by code_simp

theorem critical_section_at_most_once_witness:
  "BACKUP_POWER_SUPPLY example_plr_config
   \<and> lock (idle_calls example_plr_config example_fops example_outage_calls
              example_debounced)
   \<and> count_list (events (idle_calls example_plr_config example_fops example_outage_calls
                         example_debounced)) Kill = 1
   \<and> events (idle_calls example_plr_config example_fops example_outage_calls
                (idle_calls example_plr_config example_fops example_outage_calls
                   example_debounced))
       = events (idle_calls example_plr_config example_fops example_outage_calls
                   example_debounced)"
proof -
  let ?C = example_plr_config and ?F = example_fops and ?cs = example_outage_calls
  let ?r1 = "idle_calls ?C ?F ?cs example_debounced"
  have backup: "BACKUP_POWER_SUPPLY ?C"
    by (simp add: example_plr_config_def)
  have locked: "lock ?r1" and once: "count_list (events ?r1) Kill = 1"
    using example_outage_run by simp_all
  from critical_section_at_most_once [of ?C ?F ?cs ?r1] backup locked
  have "events (idle_calls ?C ?F ?cs ?r1) = events ?r1"
    by blast
  with backup locked once show ?thesis by simp
qed

section \<open>Boot with a valid snapshot\<close>

lemma show_nat_42: "show_nat 42 = ''42''"
  by (simp add: show_nat.simps [of 42] show_nat.simps [of 4] digit_char_def)

lemma SendTxt_short:
  assumes "length txt \<le> 120"
  shows "SendTxtToTFT txt address s
           = Some (s\<lparr>tft_out := tft_out s @
                [0x5A, 0xA5, of_nat (length txt + 5), 0x82,
                 ucast (drop_bit 8 address), ucast address]
                @ map of_char txt @ [0xFF, 0xFF]\<rparr>)"
  using assms by (simp add: SendTxtToTFT_def Let_def)

lemma check_valid:
  assumes "card_isMounted M" and "valid_head stored \<noteq> 0"
    and "valid_head stored = valid_foot stored"
  shows "check F M stored r
           = r\<lparr>info := stored, queue_injected := queue_injected r @ [''M1000S'']\<rparr>"
  using assms by (simp add: check_def load_def valid_def Let_def)

lemma check_unmounted: "\<not> card_isMounted M \<Longrightarrow> check F M stored r = r"
  by (simp add: check_def)

lemma ready_value:
  assumes "buf ! 3 = 0x01" and "buf ! 4 = 0x00" and "buf ! 5 = 0x72"
  shows "(ucast (buf ! 5 :: u8) :: u32) OR push_bit 8 (ucast (buf ! 4))
           OR push_bit 16 (ucast (buf ! 3)) = 0x010072"
  using assms by simp

text \<open>The recovery panel: the page change, the file name, the progress text, the tune.\<close>

lemma lcd_ready_resuming:
  assumes "buf ! 3 = 0x01" and "buf ! 4 = 0x00" and "buf ! 5 = 0x72"
    and "print_progress rec_info = 42"
    and "length (getLongPath (sd_filename rec_info)) < 64"
    and "printer_state s = AC_printer_resuming_from_power_outage"
  shows "\<exists>s' before. lcd_ready_request C getLongPath light rec_info buf s = Some s'
           \<and> page_index_now s' = page_data_temp (language s) PAGE_OUTAGE_RECOVERY
           \<and> tft_out s' = before @ [0x5A, 0xA5, 0x07, 0x82, 0x22, 0x10, 0x34, 0x32, 0xFF, 0xFF]
           \<and> tunes s' = tunes s @ [SOS]"
proof -
  let ?s1 = "LcdAudioSet (audio s) s"
  let ?s2 = "SendValueToTFT 2 ADDRESS_MOVE_DISTANCE ?s1"
  let ?s3 = "if CASE_LIGHT_ENABLE C
             then SendValueToTFT (if light then 1 else 0) ADDRESS_PRINT_SETTING_LED_STATUS
                    (SendValueToTFT (if light then 1 else 0) ADDRESS_SYSTEM_LED_STATUS ?s2)
             else ?s2"
  let ?s3c = "ChangePageOfTFT PAGE_OUTAGE_RECOVERY ?s3"
  let ?path = "getLongPath (sd_filename rec_info)"
  have s3: "printer_state ?s3 = printer_state s" "language ?s3 = language s"
      "tunes ?s3 = tunes s"
    by (simp_all add: LcdAudioSet_def SendValueToTFT_def)
  have short: "length ?path \<le> 120" using assms(5) by simp
  obtain s4 where s4: "SendTxtToTFT ?path TXT_OUTAGE_RECOVERY_FILE ?s3c = Some s4"
      "page_index_now s4 = page_index_now ?s3c" "tunes s4 = tunes ?s3c"
    using SendTxt_short [OF short] by simp
  have progress: "ui8tostr3rj (print_progress rec_info) = ''42''"
    using assms(4) by (simp add: ui8tostr3rj_def show_nat_42)
  have s5: "SendTxtToTFT ''42'' TXT_OUTAGE_RECOVERY_PROGRESS s4
      = Some (s4\<lparr>tft_out := tft_out s4
                @ [0x5A, 0xA5, 0x07, 0x82, 0x22, 0x10, 0x34, 0x32, 0xFF, 0xFF]\<rparr>)"
    by (simp add: SendTxtToTFT_def Let_def TXT_OUTAGE_RECOVERY_PROGRESS_def)
  have "lcd_ready_request C getLongPath light rec_info buf s
      = Some (s4\<lparr>tft_out := tft_out s4
                @ [0x5A, 0xA5, 0x07, 0x82, 0x22, 0x10, 0x34, 0x32, 0xFF, 0xFF],
              tunes := tunes s4 @ [SOS]\<rparr>)"
    unfolding lcd_ready_request_def ready_value [OF assms(1-3)] Let_def
    using assms(5,6) s3(1) s4(1) s5 progress by simp
  moreover have "page_index_now s4 = page_data_temp (language s) PAGE_OUTAGE_RECOVERY"
    using s4(2) s3(2) by (simp add: ChangePage_fields)
  moreover have "tunes s4 = tunes s"
    using s4(3) s3(3) by (simp add: ChangePageOfTFT_def Let_def)
  ultimately show ?thesis by simp
qed

text \<open>
  Claim C7, as the code has it. The card is mounted at boot and the flash holds a
  snapshot with markers 3 and 3, progress 42 and file \<open>/TEST.GCO\<close>: \<open>check\<close> loads the
  record, finds it valid and injects exactly one \<open>M1000S\<close>. When the panel then reports
  ready while the resume notification is pending, the recovery page is shown and the
  progress text sent is \<open>"42"\<close> (with \<open>ui8tostr3rj\<close>, \<open>valid\<close> as the specification
  describes them, and a long file name that fits the 64-byte buffer).
\<close>

theorem boot_with_valid_snapshot:
  assumes "card_isMounted M"
    and "valid_head stored = 3" and "valid_foot stored = 3"
    and "print_progress stored = 42" and "sd_filename stored = ''/TEST.GCO''"
    and "length (getLongPath ''/TEST.GCO'') < 64"
    and "buf ! 3 = 0x01" and "buf ! 4 = 0x00" and "buf ! 5 = 0x72"
  shows "check F M stored r
           = r\<lparr>info := stored, queue_injected := queue_injected r @ [''M1000S'']\<rparr>
       \<and> valid (check F M stored r)
       \<and> (\<exists>s' before.
             lcd_ready_request C getLongPath light (info (check F M stored r)) buf
               (PowerLossRecovery s) = Some s'
           \<and> page_index_now s' = page_data_temp (language s) PAGE_OUTAGE_RECOVERY
           \<and> tft_out s'
               = before @ [0x5A, 0xA5, 0x07, 0x82, 0x22, 0x10, 0x34, 0x32, 0xFF, 0xFF]
           \<and> tunes s' = tunes s @ [SOS])"
proof -
  have chk: "check F M stored r
      = r\<lparr>info := stored, queue_injected := queue_injected r @ [''M1000S'']\<rparr>"
    using assms(1-3) by (simp add: check_valid)
  have val: "valid (check F M stored r)"
    unfolding chk using assms(2,3) by (simp add: valid_def)
  have inf: "info (check F M stored r) = stored"
    unfolding chk by simp
  have panel: "\<exists>s' before.
      lcd_ready_request C getLongPath light stored buf (PowerLossRecovery s) = Some s'
      \<and> page_index_now s'
          = page_data_temp (language (PowerLossRecovery s)) PAGE_OUTAGE_RECOVERY
      \<and> tft_out s' = before @ [0x5A, 0xA5, 0x07, 0x82, 0x22, 0x10, 0x34, 0x32, 0xFF, 0xFF]
      \<and> tunes s' = tunes (PowerLossRecovery s) @ [SOS]"
    using assms(4-9) by (intro lcd_ready_resuming) (simp_all add: PowerLossRecovery_def)
  show ?thesis
    using chk val panel unfolding inf by (simp add: PowerLossRecovery_def)
qed

theorem boot_with_valid_snapshot_witness:
  "card_isMounted example_machine
   \<and> valid_head example_snapshot = 3 \<and> valid_foot example_snapshot = 3
   \<and> print_progress example_snapshot = 42 \<and> sd_filename example_snapshot = ''/TEST.GCO''
   \<and> queue_injected (check example_fops example_machine example_snapshot
                         (recovery_init example_fops True)) = [''M1000S'']
   \<and> (\<exists>s' before.
         lcd_ready_request example_panel_config (\<lambda>p. p) True
           (info (check example_fops example_machine example_snapshot
                    (recovery_init example_fops True)))
           [0x83, 0x00, 0x14, 0x01, 0x00, 0x72]
           (PowerLossRecovery (tft_init ENG ON)) = Some s'
       \<and> page_index_now s' = 173
       \<and> tft_out s' = before @ [0x5A, 0xA5, 0x07, 0x82, 0x22, 0x10, 0x34, 0x32, 0xFF, 0xFF])"
proof -
  have mounted: "card_isMounted example_machine"
    by (simp add: example_machine_def)
  have snap: "valid_head example_snapshot = 3" "valid_foot example_snapshot = 3"
      "print_progress example_snapshot = 42" "sd_filename example_snapshot = ''/TEST.GCO''"
    by (simp_all add: example_snapshot_def)
  have path: "length ''/TEST.GCO'' < (64 :: nat)" by simp
  have buf: "[0x83, 0x00, 0x14, 0x01, 0x00, 0x72 :: u8] ! 3 = 0x01"
      "[0x83, 0x00, 0x14, 0x01, 0x00, 0x72 :: u8] ! 4 = 0x00"
      "[0x83, 0x00, 0x14, 0x01, 0x00, 0x72 :: u8] ! 5 = 0x72"
    by simp_all
  have start: "queue_injected (recovery_init example_fops True) = []"
    by (simp add: recovery_init_def)
  have page: "page_data_temp (language (tft_init ENG ON)) PAGE_OUTAGE_RECOVERY = 173"
    by (simp add: tft_init_def page_data_temp_def page_defs)
  note inst = boot_with_valid_snapshot [where getLongPath = "\<lambda>p. p"
        and F = example_fops and r = "recovery_init example_fops True"
        and C = example_panel_config and light = True and s = "tft_init ENG ON",
      OF mounted snap path buf]
  from inst have "queue_injected (check example_fops example_machine example_snapshot
      (recovery_init example_fops True)) = [''M1000S'']"
    using start by simp
  moreover from inst have "\<exists>s' before.
         lcd_ready_request example_panel_config (\<lambda>p. p) True
           (info (check example_fops example_machine example_snapshot
                    (recovery_init example_fops True)))
           [0x83, 0x00, 0x14, 0x01, 0x00, 0x72]
           (PowerLossRecovery (tft_init ENG ON)) = Some s'
       \<and> page_index_now s' = 173
       \<and> tft_out s' = before @ [0x5A, 0xA5, 0x07, 0x82, 0x22, 0x10, 0x34, 0x32, 0xFF, 0xFF]"
    unfolding page by blast
  ultimately show ?thesis
    using mounted snap by simp
qed

text \<open>
  The claim as the specification words it leaves the card out. With the same snapshot in
  the flash and no card mounted at boot, \<open>check\<close> does not load the record and injects
  nothing.
\<close>

theorem boot_without_card_counterexample:
  "valid_head example_snapshot = 3 \<and> valid_foot example_snapshot = 3
   \<and> print_progress example_snapshot = 42 \<and> sd_filename example_snapshot = ''/TEST.GCO''
   \<and> queue_injected (check example_fops (example_machine\<lparr>card_isMounted := False\<rparr>)
                         example_snapshot (recovery_init example_fops True)) = []
   \<and> info (check example_fops (example_machine\<lparr>card_isMounted := False\<rparr>)
             example_snapshot (recovery_init example_fops True)) \<noteq> example_snapshot"
  by (simp add: check_unmounted example_snapshot_def recovery_init_def zero_info_def)

section \<open>The order of the commands of a resume\<close>

lemma gcodes_append: "gcodes (xs @ ys) = gcodes xs @ gcodes ys"
  by (simp add: gcodes_def)

lemma gcodes_Nil: "gcodes [] = []"
  by (simp add: gcodes_def)

lemma gcodes_concat: "set (gcodes (concat xss)) = (\<Union>xs\<in>set xss. set (gcodes xs))"
  by (induction xss) (simp_all add: gcodes_append, simp add: gcodes_def)

lemma gcodes_map: "gcodes (map (\<lambda>e. Gcode (f e)) xs) = map f xs"
  by (induction xs) (simp_all add: gcodes_def)

lemma starts_with_append: "starts_with p (p @ s)"
  by (induction p) simp_all

lemma enable_idle: "\<not> IS_SD_PRINTING M \<Longrightarrow> enable C F M True r = r\<lparr>enabled := True\<rparr>"
  by (simp add: enable_def changed_def)

lemma resume_events:
  assumes "\<not> IS_SD_PRINTING M"
  shows "events (resume C F M r)
           = events r @ resume_restore C F (info r) @ resume_file C (sdpos (info r)) (info r)"
  using assms by (simp add: resume_def Let_def enable_idle)

subsection \<open>The temperatures\<close>

lemma bed_commands: "c \<in> set (gcodes (resume_bed C cmd i)) \<Longrightarrow> starts_with cmd c"
  by (auto simp add: resume_bed_def gcodes_def starts_with_append split: if_splits)

lemma bed_command:
  assumes "HAS_HEATED_BED C" and "target_temperature_bed i \<noteq> 0"
  shows "gcodes (resume_bed C cmd i) = [cmd @ show_int (sint (target_temperature_bed i))]"
  using assms by (simp add: resume_bed_def gcodes_def)

lemma hotend_commands:
  "c \<in> set (gcodes (resume_hotend C cmd i e)) \<Longrightarrow> starts_with cmd c \<or> starts_with ''T'' c"
  by (auto simp add: resume_hotend_def gcodes_def starts_with_append split: if_splits)

lemma hotends_commands:
  "c \<in> set (gcodes (resume_hotends C cmd i)) \<Longrightarrow> starts_with cmd c \<or> starts_with ''T'' c"
  by (auto simp add: resume_hotends_def gcodes_concat gcodes_Nil
      dest: hotend_commands split: if_splits)

lemma hotend_command:
  assumes "HAS_HOTEND C" and "e < HOTENDS C" and "target_temperature i e \<noteq> 0"
  shows "cmd @ show_int (sint (target_temperature i e)) \<in> set (gcodes (resume_hotends C cmd i))"
proof -
  have "cmd @ show_int (sint (target_temperature i e)) \<in> set (gcodes (resume_hotend C cmd i e))"
    using assms(3) by (simp add: resume_hotend_def gcodes_def)
  then show ?thesis
    using assms(1,2) by (auto simp add: resume_hotends_def gcodes_concat)
qed

subsection \<open>Between the homing and the move back\<close>

lemma homed_commands: "\<not> POWER_LOSS_RECOVER_ZHOME C \<Longrightarrow> gcodes (resume_homed C F i) = []"
  by (simp add: resume_homed_def gcodes_def)

lemma volumetric_commands:
  "c \<in> set (gcodes (resume_volumetric C F i)) \<Longrightarrow> starts_with ''M200'' c"
  by (auto simp add: resume_volumetric_def gcodes_append gcodes_map gcodes_def
      split: if_splits)

lemma tool_commands: "c \<in> set (gcodes (resume_tool C i)) \<Longrightarrow> starts_with ''T'' c"
  by (auto simp add: resume_tool_def gcodes_def split: if_splits)

lemma fan_commands: "c \<in> set (gcodes (resume_fans C i)) \<Longrightarrow> starts_with ''M106'' c"
  by (auto simp add: resume_fans_def resume_fan_def gcodes_concat gcodes_def
      split: if_splits)

lemma leveling_on_commands:
  "c \<in> set (gcodes (resume_leveling_on C F i)) \<Longrightarrow> starts_with ''M420'' c"
  by (auto simp add: resume_leveling_on_def gcodes_def split: if_splits)

lemma extrude_commands:
  "c \<in> set (gcodes (resume_extrude C)) \<Longrightarrow> starts_with ''G1 E'' c \<or> c = ''G12''"
  by (auto simp add: resume_extrude_def gcodes_def split: if_splits)

lemma babystep_commands:
  "c \<in> set (gcodes (resume_babystep C F i))
     \<Longrightarrow> starts_with ''G92.9 Z'' c \<or> starts_with ''M400'' c"
  by (auto simp add: resume_babystep_def gcodes_def split: if_splits)

lemma not_G28:
  "starts_with ''M200'' c \<or> starts_with ''T'' c \<or> starts_with ''M106'' c
     \<or> starts_with ''M420'' c \<or> starts_with ''G1 E'' c \<or> c = ''G12''
     \<or> starts_with ''G92.9 Z'' c \<or> starts_with ''M400'' c
   \<Longrightarrow> \<not> starts_with ''G28'' c"
  by (cases c; cases "tl c"; cases "tl (tl c)") auto

text \<open>Everything between the homing and the move back, when Z is not homed.\<close>

lemma middle_commands:
  assumes "\<not> POWER_LOSS_RECOVER_ZHOME C"
    and "c \<in> set (gcodes (resume_homed C F i @ resume_volumetric C F i @ resume_tool C i
            @ resume_fans C i @ (if FWRETRACT C then [Restore_fwretract] else [])
            @ resume_leveling_on C F i @ (if GRADIENT_MIX C then [Restore_gradient] else [])
            @ resume_extrude C @ resume_babystep C F i))"
  shows "\<not> starts_with ''G28'' c"
proof -
  have plain: "gcodes (if FWRETRACT C then [Restore_fwretract] else []) = []"
      "gcodes (if GRADIENT_MIX C then [Restore_gradient] else []) = []"
    by (simp_all add: gcodes_def)
  from assms(2) have "c \<in> set (gcodes (resume_volumetric C F i))
      \<or> c \<in> set (gcodes (resume_tool C i)) \<or> c \<in> set (gcodes (resume_fans C i))
      \<or> c \<in> set (gcodes (resume_leveling_on C F i))
      \<or> c \<in> set (gcodes (resume_extrude C))
      \<or> c \<in> set (gcodes (resume_babystep C F i))"
    by (simp add: gcodes_append homed_commands [OF assms(1)] plain)
  then have "starts_with ''M200'' c \<or> starts_with ''T'' c \<or> starts_with ''M106'' c
      \<or> starts_with ''M420'' c \<or> starts_with ''G1 E'' c \<or> c = ''G12''
      \<or> starts_with ''G92.9 Z'' c \<or> starts_with ''M400'' c"
  proof (elim disjE)
    assume "c \<in> set (gcodes (resume_volumetric C F i))"
    then show ?thesis by (simp only: volumetric_commands simp_thms)
  next
    assume "c \<in> set (gcodes (resume_tool C i))"
    then show ?thesis by (simp only: tool_commands simp_thms)
  next
    assume "c \<in> set (gcodes (resume_fans C i))"
    then show ?thesis by (simp only: fan_commands simp_thms)
  next
    assume "c \<in> set (gcodes (resume_leveling_on C F i))"
    then show ?thesis by (simp only: leveling_on_commands simp_thms)
  next
    assume "c \<in> set (gcodes (resume_extrude C))"
    then have "starts_with ''G1 E'' c \<or> c = ''G12''" by (rule extrude_commands)
    then show ?thesis by (elim disjE) (simp_all only: simp_thms)
  next
    assume "c \<in> set (gcodes (resume_babystep C F i))"
    then have "starts_with ''G92.9 Z'' c \<or> starts_with ''M400'' c"
      by (rule babystep_commands)
    then show ?thesis by (elim disjE) (simp_all only: simp_thms)
  qed
  then show ?thesis by (rule not_G28)
qed

subsection \<open>The whole sequence\<close>

lemma resume_sequence:
  assumes "HAS_LEVELING C" and "\<not> Z_HOME_DIR_pos C" and "IS_CARTESIAN C"
    and "\<not> POWER_LOSS_RECOVER_ZHOME C" and "\<not> IS_SD_PRINTING M"
  shows "gcodes (events (resume C F M r)) =
      gcodes (events r) @ [''M420 S0 Z0'']
      @ gcodes (resume_bed C ''M140 S'' (info r) @ resume_hotends C ''M104 S'' (info r))
      @ gcodes (resume_bed C ''M190 S'' (info r))
      @ gcodes (resume_hotends C ''M109 S'' (info r))
      @ [''G92.9 E0 ''
           @ (if BACKUP_POWER_SUPPLY C then ''Z'' @ dtostrf F (zraise (info r)) 1 3
              else ''Z0'' @ newline @ ''G1Z'' @ dtostrf F (zraise (info r)) 1 3),
         ''G28R2XY'']
      @ gcodes (resume_homed C F (info r) @ resume_volumetric C F (info r)
          @ resume_tool C (info r) @ resume_fans C (info r)
          @ (if FWRETRACT C then [Restore_fwretract] else [])
          @ resume_leveling_on C F (info r)
          @ (if GRADIENT_MIX C then [Restore_gradient] else [])
          @ resume_extrude C @ resume_babystep C F (info r))
      @ [''G1 X'' @ dtostrf F (pos_x (current_position (info r))) 1 3
           @ '' Y'' @ dtostrf F (pos_y (current_position (info r))) 1 3 @ '' F3000'',
         ''M400'',
         ''G1 Z'' @ dtostrf F (pos_z (current_position (info r))) 1 3 @ '' F200'',
         ''G1 F'' @ show_nat (unat (feedrate (info r))),
         ''G92.9 E'' @ dtostrf F (pos_e (current_position (info r))) 1 3,
         M23_STR C (sd_filename (info r)),
         ''M24 S'' @ show_int (sint (sdpos (info r)))
           @ '' T'' @ show_int (sint (print_job_elapsed (info r)))]"
proof -
  have flags: "gcodes (resume_flags C (info r)) = []"
    by (simp add: resume_flags_def gcodes_def)
  have off: "gcodes (resume_leveling_off C) = [''M420 S0 Z0'']"
    using assms(1) by (simp add: resume_leveling_off_def gcodes_def)
  have home: "gcodes (resume_home C F (info r)) =
      [''G92.9 E0 ''
         @ (if BACKUP_POWER_SUPPLY C then ''Z'' @ dtostrf F (zraise (info r)) 1 3
            else ''Z0'' @ newline @ ''G1Z'' @ dtostrf F (zraise (info r)) 1 3),
       ''G28R2XY'']"
    using assms(2-4) by (simp add: resume_home_def gcodes_def)
  have move: "gcodes (resume_move F (info r)) =
      [''G1 X'' @ dtostrf F (pos_x (current_position (info r))) 1 3
         @ '' Y'' @ dtostrf F (pos_y (current_position (info r))) 1 3 @ '' F3000'',
       ''M400'',
       ''G1 Z'' @ dtostrf F (pos_z (current_position (info r))) 1 3 @ '' F200'',
       ''G1 F'' @ show_nat (unat (feedrate (info r))),
       ''G92.9 E'' @ dtostrf F (pos_e (current_position (info r))) 1 3]"
    by (simp add: resume_move_def gcodes_def)
  have workspace: "gcodes (resume_workspace C) = []"
    by (simp add: resume_workspace_def gcodes_def)
  have selected: "gcodes (resume_file C (sdpos (info r)) (info r)) =
      [M23_STR C (sd_filename (info r)),
       ''M24 S'' @ show_int (sint (sdpos (info r)))
         @ '' T'' @ show_int (sint (print_job_elapsed (info r)))]"
    by (simp add: resume_file_def gcodes_def)
  show ?thesis
    unfolding resume_events [OF assms(5)] resume_restore_def gcodes_append
      flags off home move workspace selected
    by simp
qed

text \<open>
  Claim C2. In a configuration with bed leveling, Z homing to the minimum, Cartesian
  kinematics and no Z homing on recovery, and with no print running when \<open>enable(true)\<close>
  is reached, the G-code commands of \<open>resume\<close> are, in this order: \<open>M420 S0 Z0\<close>; the
  temperature targets (\<open>M140\<close>, \<open>M104\<close>, with a tool selection before a hotend's where
  there are several); the wait for the bed (\<open>M190\<close>); the waits for the hotends (\<open>M109\<close>);
  the reset of E with \<open>G92.9 E0\<close> and \<open>G28R2XY\<close>; commands none of which is a \<open>G28\<close>; the
  move to the saved X and Y, \<open>M400\<close>, the move to the saved Z, the feedrate, the saved E,
  the selection of the file and \<open>M24\<close> with the saved byte offset and elapsed time. Every
  non-zero target is set and waited for.
\<close>

theorem resume_command_order:
  assumes "HAS_LEVELING C" and "\<not> Z_HOME_DIR_pos C" and "IS_CARTESIAN C"
    and "\<not> POWER_LOSS_RECOVER_ZHOME C" and "\<not> IS_SD_PRINTING M"
  shows "\<exists>set_temps wait_bed wait_hotends rest.
      gcodes (events (resume C F M r)) =
        gcodes (events r) @ [''M420 S0 Z0''] @ set_temps @ wait_bed @ wait_hotends
        @ [''G92.9 E0 ''
             @ (if BACKUP_POWER_SUPPLY C then ''Z'' @ dtostrf F (zraise (info r)) 1 3
                else ''Z0'' @ newline @ ''G1Z'' @ dtostrf F (zraise (info r)) 1 3),
           ''G28R2XY'']
        @ rest
        @ [''G1 X'' @ dtostrf F (pos_x (current_position (info r))) 1 3
             @ '' Y'' @ dtostrf F (pos_y (current_position (info r))) 1 3 @ '' F3000'',
           ''M400'',
           ''G1 Z'' @ dtostrf F (pos_z (current_position (info r))) 1 3 @ '' F200'',
           ''G1 F'' @ show_nat (unat (feedrate (info r))),
           ''G92.9 E'' @ dtostrf F (pos_e (current_position (info r))) 1 3,
           M23_STR C (sd_filename (info r)),
           ''M24 S'' @ show_int (sint (sdpos (info r)))
             @ '' T'' @ show_int (sint (print_job_elapsed (info r)))]
    \<and> (\<forall>c \<in> set set_temps.
          starts_with ''M140 S'' c \<or> starts_with ''M104 S'' c \<or> starts_with ''T'' c)
    \<and> (\<forall>c \<in> set wait_bed. starts_with ''M190 S'' c)
    \<and> (\<forall>c \<in> set wait_hotends. starts_with ''M109 S'' c \<or> starts_with ''T'' c)
    \<and> (\<forall>c \<in> set rest. \<not> starts_with ''G28'' c)
    \<and> (HAS_HEATED_BED C \<and> target_temperature_bed (info r) \<noteq> 0 \<longrightarrow>
          ''M140 S'' @ show_int (sint (target_temperature_bed (info r))) \<in> set set_temps
        \<and> wait_bed = [''M190 S'' @ show_int (sint (target_temperature_bed (info r)))])
    \<and> (\<forall>e. HAS_HOTEND C \<and> e < HOTENDS C \<and> target_temperature (info r) e \<noteq> 0 \<longrightarrow>
          ''M104 S'' @ show_int (sint (target_temperature (info r) e)) \<in> set set_temps
        \<and> ''M109 S'' @ show_int (sint (target_temperature (info r) e)) \<in> set wait_hotends)"
proof -
  let ?i = "info r"
  let ?set_temps = "gcodes (resume_bed C ''M140 S'' ?i @ resume_hotends C ''M104 S'' ?i)"
  let ?wait_bed = "gcodes (resume_bed C ''M190 S'' ?i)"
  let ?wait_hotends = "gcodes (resume_hotends C ''M109 S'' ?i)"
  let ?rest = "gcodes (resume_homed C F ?i @ resume_volumetric C F ?i
          @ resume_tool C ?i @ resume_fans C ?i
          @ (if FWRETRACT C then [Restore_fwretract] else [])
          @ resume_leveling_on C F ?i
          @ (if GRADIENT_MIX C then [Restore_gradient] else [])
          @ resume_extrude C @ resume_babystep C F ?i)"
  have temps: "\<forall>c \<in> set ?set_temps.
      starts_with ''M140 S'' c \<or> starts_with ''M104 S'' c \<or> starts_with ''T'' c"
    using bed_commands [of _ C "''M140 S''" ?i] hotends_commands [of _ C "''M104 S''" ?i]
    by (auto simp add: gcodes_append)
  have bed: "\<forall>c \<in> set ?wait_bed. starts_with ''M190 S'' c"
    using bed_commands [of _ C "''M190 S''" ?i] by blast
  have hotends: "\<forall>c \<in> set ?wait_hotends. starts_with ''M109 S'' c \<or> starts_with ''T'' c"
    using hotends_commands [of _ C "''M109 S''" ?i] by blast
  have rest: "\<forall>c \<in> set ?rest. \<not> starts_with ''G28'' c"
    using middle_commands [OF assms(4), of _ F ?i] by blast
  have bed_set: "HAS_HEATED_BED C \<and> target_temperature_bed ?i \<noteq> 0 \<longrightarrow>
      ''M140 S'' @ show_int (sint (target_temperature_bed ?i)) \<in> set ?set_temps
      \<and> ?wait_bed = [''M190 S'' @ show_int (sint (target_temperature_bed ?i))]"
    by (simp add: gcodes_append bed_command)
  have hotend_set: "\<forall>e. HAS_HOTEND C \<and> e < HOTENDS C \<and> target_temperature ?i e \<noteq> 0 \<longrightarrow>
      ''M104 S'' @ show_int (sint (target_temperature ?i e)) \<in> set ?set_temps
      \<and> ''M109 S'' @ show_int (sint (target_temperature ?i e)) \<in> set ?wait_hotends"
  proof (intro allI impI)
    fix e
    assume "HAS_HOTEND C \<and> e < HOTENDS C \<and> target_temperature ?i e \<noteq> 0"
    then show "''M104 S'' @ show_int (sint (target_temperature ?i e)) \<in> set ?set_temps
        \<and> ''M109 S'' @ show_int (sint (target_temperature ?i e)) \<in> set ?wait_hotends"
      using hotend_command [of C e ?i "''M104 S''"] hotend_command [of C e ?i "''M109 S''"]
      by (simp add: gcodes_append)
  qed
  from resume_sequence [OF assms, of F r] temps bed hotends rest bed_set hotend_set
  show ?thesis
    by (intro exI [of _ ?set_temps] exI [of _ ?wait_bed] exI [of _ ?wait_hotends]
        exI [of _ ?rest] conjI)
qed

text \<open>The commands of the resume after the restart of the example print.\<close>

lemma example_resume_run:
  "gcodes (events (resume example_plr_config example_fops example_restarted
                     example_interrupted))
     = [''M420 S0 Z0'', ''M140 S60'', ''M104 S200'', ''M190 S60'', ''M109 S200'',
        ''G92.9 E0 Z2.000'', ''G28R2XY'', ''M106 P0 S255'', ''M420 S1 Z10.0'',
        ''G1 E10 F3000'', ''G92.9 Z14.400'', ''M400'' @ newline @ ''G4 P1000'',
        ''G1 X100.000 Y90.000 F3000'', ''M400'', ''G1 Z12.400 F200'', ''G1 F3000'',
        ''G92.9 E1.234'', ''M23 /TEST.GCO'', ''M24 S123456 T3600'']"
proof -
  have cfg: "HAS_LEVELING example_plr_config" "\<not> Z_HOME_DIR_pos example_plr_config"
      "IS_CARTESIAN example_plr_config" "\<not> POWER_LOSS_RECOVER_ZHOME example_plr_config"
      "\<not> IS_SD_PRINTING example_restarted"
    by (simp_all add: example_plr_config_def example_restarted_def)
  show ?thesis
    unfolding resume_sequence [OF cfg]
    by (simp add: example_interrupted_def load_def recovery_init_def gcodes_def
        snapshot_def save_markers_def save_machine_state_def save_workspace_def
        save_extruders_def save_temperatures_def save_fans_leveling_def
        save_mix_retract_def save_job_def next_head_def example_snapshot_def
        zero_info_def example_machine_def example_plr_config_def example_fops_def
        resume_bed_def resume_hotends_def resume_hotend_def resume_homed_def
        resume_volumetric_def resume_tool_def resume_fans_def resume_fan_def
        resume_leveling_on_def resume_extrude_def resume_babystep_def retract_len_def
        show_int_def show_nat.simps digit_char_def newline_def Let_def)
qed

theorem resume_command_order_witness:
  "HAS_LEVELING example_plr_config \<and> \<not> Z_HOME_DIR_pos example_plr_config
   \<and> IS_CARTESIAN example_plr_config \<and> \<not> POWER_LOSS_RECOVER_ZHOME example_plr_config
   \<and> \<not> IS_SD_PRINTING example_restarted
   \<and> hd (gcodes (events (resume example_plr_config example_fops example_restarted
                            example_interrupted))) = ''M420 S0 Z0''
   \<and> ''G28R2XY'' \<in> set (gcodes (events (resume example_plr_config example_fops
                                            example_restarted example_interrupted)))
   \<and> length (gcodes (events (resume example_plr_config example_fops example_restarted
                                example_interrupted))) = 19"
proof -
  have cfg: "HAS_LEVELING example_plr_config" "\<not> Z_HOME_DIR_pos example_plr_config"
      "IS_CARTESIAN example_plr_config" "\<not> POWER_LOSS_RECOVER_ZHOME example_plr_config"
      "\<not> IS_SD_PRINTING example_restarted"
    by (simp_all add: example_plr_config_def example_restarted_def)
  have start: "gcodes (events example_interrupted) = []"
    by (simp add: example_interrupted_def load_def recovery_init_def gcodes_def)
  from resume_command_order [OF cfg, of example_fops example_interrupted]
  obtain set_temps wait_bed wait_hotends rest tail where
    "gcodes (events (resume example_plr_config example_fops example_restarted
                       example_interrupted))
       = gcodes (events example_interrupted) @ [''M420 S0 Z0''] @ set_temps @ wait_bed
         @ wait_hotends @ [''G92.9 E0 '' @ tail, ''G28R2XY''] @ rest"
    by (elim exE conjE) (rule that, simp)
  then have order: "hd (gcodes (events (resume example_plr_config example_fops
        example_restarted example_interrupted))) = ''M420 S0 Z0''"
      "''G28R2XY'' \<in> set (gcodes (events (resume example_plr_config example_fops
        example_restarted example_interrupted)))"
    unfolding start by simp_all
  have "length (gcodes (events (resume example_plr_config example_fops example_restarted
      example_interrupted))) = 19"
    unfolding example_resume_run by simp
  with cfg order show ?thesis by simp
qed

end
